theory Spec2Isabelle
  imports Main "HOL-Library.Sublist" "HOL-Library.Char_ord"
begin

section \<open>JavaScript strings\<close>

text \<open>
  A JavaScript string is modelled as a \<^typ>\<open>string\<close>: a list of code units, each in the
  range 0..255.  Within that range the white space and line terminator code units of
  ECMAScript (the set that \<^verbatim>\<open>\s\<close> and \<^verbatim>\<open>trim\<close> use) are
  TAB, LF, VT, FF, CR, SPACE and NBSP.
\<close>

definition isSpace :: "char \<Rightarrow> bool" where
  "isSpace c \<longleftrightarrow> c \<in> set [CHR 0x09, CHR 0x0A, CHR 0x0B, CHR 0x0C, CHR 0x0D, CHR 0x20, CHR 0xA0]"

definition isLineTerminator :: "char \<Rightarrow> bool" where
  "isLineTerminator c \<longleftrightarrow> c = CHR 0x0A \<or> c = CHR 0x0D"

definition isWordChar :: "char \<Rightarrow> bool" where
  "isWordChar c \<longleftrightarrow>
     (CHR ''a'' \<le> c \<and> c \<le> CHR ''z'') \<or> (CHR ''A'' \<le> c \<and> c \<le> CHR ''Z'') \<or>
     (CHR ''0'' \<le> c \<and> c \<le> CHR ''9'') \<or> c = CHR ''_''"

text \<open>\<^verbatim>\<open>String.prototype.trim\<close>.\<close>

definition trim :: "string \<Rightarrow> string" where
  "trim s = rev (dropWhile isSpace (rev (dropWhile isSpace s)))"

text \<open>
  \<^verbatim>\<open>String.prototype.toLowerCase\<close> on code units 0..255: the upper-case letters are
  A..Z and 0xC0..0xDE without the multiplication sign 0xD7; each is mapped to the code
  unit 32 above it, which is setting bit 5.
\<close>

definition isUpperChar :: "char \<Rightarrow> bool" where
  "isUpperChar c \<longleftrightarrow>
     (CHR ''A'' \<le> c \<and> c \<le> CHR ''Z'') \<or> (CHR 0xC0 \<le> c \<and> c \<le> CHR 0xDE \<and> c \<noteq> CHR 0xD7)"

definition toLowerChar :: "char \<Rightarrow> char" where
  "toLowerChar c =
     (if isUpperChar c
      then (case c of Char b0 b1 b2 b3 b4 b5 b6 b7 \<Rightarrow> Char b0 b1 b2 b3 b4 True b6 b7)
      else c)"

definition toLowerCase :: "string \<Rightarrow> string" where
  "toLowerCase s = map toLowerChar s"

text \<open>\<^verbatim>\<open>includes\<close>, \<^verbatim>\<open>startsWith\<close> and \<^verbatim>\<open>endsWith\<close>.\<close>

fun includesStr :: "string \<Rightarrow> string \<Rightarrow> bool" where
  "includesStr [] needle = (needle = [])"
| "includesStr (c # cs) needle = (prefix needle (c # cs) \<or> includesStr cs needle)"

definition startsWith :: "string \<Rightarrow> string \<Rightarrow> bool" where
  "startsWith s p = prefix p s"

definition endsWith :: "string \<Rightarrow> string \<Rightarrow> bool" where
  "endsWith s p = prefix (rev p) (rev s)"

text \<open>
  \<^verbatim>\<open>String.prototype.split\<close> with a non-empty string separator: the pieces between the
  successive, non-overlapping occurrences of the separator, scanning from the left.  The
  result is never empty: the empty string splits into one empty piece.
\<close>

fun splitAcc :: "string \<Rightarrow> string \<Rightarrow> string \<Rightarrow> string list" where
  "splitAcc sep acc [] = [rev acc]"
| "splitAcc sep acc (c # cs) =
     (if prefix sep (c # cs)
      then rev acc # splitAcc sep [] (drop (length sep - 1) cs)
      else splitAcc sep (c # acc) cs)"

definition split :: "string \<Rightarrow> string \<Rightarrow> string list" where
  "split s sep = (if sep = [] then map (\<lambda>c. [c]) s else splitAcc sep [] s)"

text \<open>\<^verbatim>\<open>Array.prototype.join\<close>.\<close>

fun join :: "string list \<Rightarrow> string \<Rightarrow> string" where
  "join [] sep = []"
| "join [x] sep = x"
| "join (x # y # ys) sep = x @ sep @ join (y # ys) sep"

section \<open>Regular expressions\<close>

text \<open>
  The regular expressions of the program are kept as syntax trees and run by one
  backtracking matcher, which follows the ECMAScript semantics for the constructs the
  program uses: literal characters, \<^verbatim>\<open>.\<close>, character classes, sequence, alternation in
  order, greedy and lazy repetition (an iteration that consumes nothing is rejected),
  capture groups, backreferences, \<^verbatim>\<open>^\<close>, \<^verbatim>\<open>$\<close> (no multiline flag) and \<^verbatim>\<open>\b\<close>.
\<close>

datatype citem =
    CChr char             \<comment> \<open>a single character\<close>
  | CRange char char      \<comment> \<open>\<^verbatim>\<open>a-z\<close>\<close>
  | CSpace                \<comment> \<open>\<^verbatim>\<open>\s\<close>\<close>
  | CNonSpace             \<comment> \<open>\<^verbatim>\<open>\S\<close>\<close>

datatype regex =
    Chr char
  | Dot
  | Cls bool "citem list"   \<comment> \<open>\<^verbatim>\<open>[...]\<close>; the flag is \<open>True\<close> for a negated class \<^verbatim>\<open>[^...]\<close>\<close>
  | Seq regex regex
  | Alt regex regex
  | Star bool regex         \<comment> \<open>\<^verbatim>\<open>r*\<close> when the flag is \<open>True\<close> (greedy), \<^verbatim>\<open>r*?\<close> otherwise\<close>
  | Group nat regex
  | Backref nat
  | Bol
  | Eol
  | WordB
  | Eps

text \<open>Derived forms.\<close>

definition cat :: "regex list \<Rightarrow> regex" where
  "cat rs = foldr Seq rs Eps"

definition Str :: "string \<Rightarrow> regex" where
  "Str s = foldr (\<lambda>c r. Seq (Chr c) r) s Eps"

definition Plus :: "regex \<Rightarrow> regex" where
  "Plus r = Seq r (Star True r)"

definition Opt :: "regex \<Rightarrow> regex" where
  "Opt r = Alt r Eps"

definition alts :: "regex list \<Rightarrow> regex" where
  "alts rs = (case rs of [] \<Rightarrow> Eps | _ \<Rightarrow> foldr Alt (butlast rs) (last rs))"

abbreviation ws :: regex where
  "ws \<equiv> Cls False [CSpace]"

abbreviation anyChar :: regex where
  "anyChar \<equiv> Cls False [CSpace, CNonSpace]"

text \<open>
  The matcher state: the input before the current position (reversed), the input from
  the current position on, and the captures made so far (latest first).
\<close>

record mstate =
  pre :: string
  post :: string
  caps :: "(nat \<times> string) list"

text \<open>
  Case-insensitive matching compares canonicalised characters.  Every pattern character
  of the program is ASCII, and ECMAScript never canonicalises a non-ASCII code unit to an
  ASCII one, so it is enough to fold a..z to A..Z and to leave the rest.
\<close>

definition canon :: "bool \<Rightarrow> char \<Rightarrow> char" where
  "canon ic c =
     (if ic \<and> CHR ''a'' \<le> c \<and> c \<le> CHR ''z''
      then (case c of Char b0 b1 b2 b3 b4 b5 b6 b7 \<Rightarrow> Char b0 b1 b2 b3 b4 False b6 b7)
      else c)"

definition asciiLower :: "char \<Rightarrow> char" where
  "asciiLower c =
     (if CHR ''A'' \<le> c \<and> c \<le> CHR ''Z''
      then (case c of Char b0 b1 b2 b3 b4 b5 b6 b7 \<Rightarrow> Char b0 b1 b2 b3 b4 True b6 b7)
      else c)"

definition inRange :: "char \<Rightarrow> char \<Rightarrow> char \<Rightarrow> bool" where
  "inRange lo hi c \<longleftrightarrow> lo \<le> c \<and> c \<le> hi"

text \<open>
  A class item has a character when one of the item's characters canonicalises to the
  same character; for a range under the \<^verbatim>\<open>i\<close> flag that is the character itself or
  its ASCII case variant lying in the range.
\<close>

fun citemHas :: "bool \<Rightarrow> citem \<Rightarrow> char \<Rightarrow> bool" where
  "citemHas ic (CChr a) c = (canon ic a = canon ic c)"
| "citemHas ic (CRange lo hi) c =
     (inRange lo hi c \<or> (ic \<and> (inRange lo hi (canon True c) \<or> inRange lo hi (asciiLower c))))"
| "citemHas ic CSpace c = isSpace c"
| "citemHas ic CNonSpace c = (\<not> isSpace c)"

definition clsHas :: "bool \<Rightarrow> bool \<Rightarrow> citem list \<Rightarrow> char \<Rightarrow> bool" where
  "clsHas ic neg items c = (list_ex (\<lambda>i. citemHas ic i c) items \<noteq> neg)"

definition step :: "mstate \<Rightarrow> mstate" where
  "step st = (case post st of [] \<Rightarrow> st | c # cs \<Rightarrow> st\<lparr>pre := c # pre st, post := cs\<rparr>)"

definition accept :: "(char \<Rightarrow> bool) \<Rightarrow> mstate \<Rightarrow> mstate list" where
  "accept p st = (case post st of [] \<Rightarrow> [] | c # cs \<Rightarrow> if p c then [step st] else [])"

text \<open>
  Repetition.  The first argument is fuel, of which one unit is spent per iteration; the
  matcher passes the remaining input, and an iteration that is kept consumes at least
  one character, so the fuel never runs out before the input does.
\<close>

primrec iter :: "bool \<Rightarrow> 'a list \<Rightarrow> (mstate \<Rightarrow> mstate list) \<Rightarrow> mstate \<Rightarrow> mstate list" where
  "iter g [] f st = [st]"
| "iter g (x # fuel) f st =
     (if g
      then concat (map (iter g fuel f) (filter (\<lambda>st'. post st' \<noteq> post st) (f st))) @ [st]
      else st # concat (map (iter g fuel f) (filter (\<lambda>st'. post st' \<noteq> post st) (f st))))"

definition matched :: "mstate \<Rightarrow> mstate \<Rightarrow> string" where
  "matched st st' = take (length (post st) - length (post st')) (post st)"

definition atWordBoundary :: "mstate \<Rightarrow> bool" where
  "atWordBoundary st \<longleftrightarrow>
     (case pre st of [] \<Rightarrow> False | a # _ \<Rightarrow> isWordChar a) \<noteq>
     (case post st of [] \<Rightarrow> False | b # _ \<Rightarrow> isWordChar b)"

text \<open>
  \<open>ms ic r st\<close> lists the states in which \<open>r\<close> can end when started in \<open>st\<close>, in the
  order in which a backtracking matcher tries them; \<open>ic\<close> is the \<^verbatim>\<open>i\<close> flag.
\<close>

primrec ms :: "bool \<Rightarrow> regex \<Rightarrow> mstate \<Rightarrow> mstate list" where
  "ms ic (Chr a) st = accept (\<lambda>c. canon ic c = canon ic a) st"
| "ms ic Dot st = accept (\<lambda>c. \<not> isLineTerminator c) st"
| "ms ic (Cls neg items) st = accept (clsHas ic neg items) st"
| "ms ic (Seq r1 r2) st = concat (map (ms ic r2) (ms ic r1 st))"
| "ms ic (Alt r1 r2) st = ms ic r1 st @ ms ic r2 st"
| "ms ic (Star g r) st = iter g (post st) (ms ic r) st"
| "ms ic (Group n r) st = map (\<lambda>st'. st'\<lparr>caps := (n, matched st st') # caps st'\<rparr>) (ms ic r st)"
| "ms ic (Backref n) st =
     (case map_of (caps st) n of
        None \<Rightarrow> [st]
      | Some s \<Rightarrow>
          if map (canon ic) (take (length s) (post st)) = map (canon ic) s
          then [st\<lparr>pre := rev (take (length s) (post st)) @ pre st, post := drop (length s) (post st)\<rparr>]
          else [])"
| "ms ic Bol st = (if pre st = [] then [st] else [])"
| "ms ic Eol st = (if post st = [] then [st] else [])"
| "ms ic WordB st = (if atWordBoundary st then [st] else [])"
| "ms ic Eps st = [st]"

text \<open>
  One match attempt of \<^verbatim>\<open>RegExp.prototype.exec\<close> from a position: the leftmost start at
  which the matcher succeeds, with the first end it finds there.  The result is the
  state at the start of the match and the state at its end.
\<close>

fun search :: "bool \<Rightarrow> regex \<Rightarrow> string \<Rightarrow> string \<Rightarrow> (mstate \<times> mstate) option" where
  "search ic r p [] =
     (case ms ic r \<lparr>pre = p, post = [], caps = []\<rparr> of
        [] \<Rightarrow> None
      | e # _ \<Rightarrow> Some (\<lparr>pre = p, post = [], caps = []\<rparr>, e))"
| "search ic r p (c # cs) =
     (case ms ic r \<lparr>pre = p, post = c # cs, caps = []\<rparr> of
        [] \<Rightarrow> search ic r (c # p) cs
      | e # _ \<Rightarrow> Some (\<lparr>pre = p, post = c # cs, caps = []\<rparr>, e))"

text \<open>The value of capture group \<open>n\<close> of a match; \<open>None\<close> is JavaScript's \<^verbatim>\<open>undefined\<close>.\<close>

definition capture :: "mstate \<Rightarrow> nat \<Rightarrow> string option" where
  "capture e n = map_of (caps e) n"

definition group :: "mstate \<Rightarrow> nat \<Rightarrow> string" where
  "group e n = (case capture e n of None \<Rightarrow> [] | Some s \<Rightarrow> s)"

text \<open>The text of a match, and the text that a search skipped before the match.\<close>

definition matchText :: "mstate \<times> mstate \<Rightarrow> string" where
  "matchText m = matched (fst m) (snd m)"

definition skipped :: "string \<Rightarrow> mstate \<Rightarrow> string" where
  "skipped p b = rev (take (length (pre b) - length p) (pre b))"

text \<open>\<^verbatim>\<open>RegExp.prototype.test\<close> and \<^verbatim>\<open>String.prototype.match\<close> without the \<^verbatim>\<open>g\<close> flag.\<close>

definition matchRx :: "bool \<Rightarrow> regex \<Rightarrow> string \<Rightarrow> (mstate \<times> mstate) option" where
  "matchRx ic r s = search ic r [] s"

definition testRx :: "bool \<Rightarrow> regex \<Rightarrow> string \<Rightarrow> bool" where
  "testRx ic r s \<longleftrightarrow> matchRx ic r s \<noteq> None"

text \<open>
  The loop \<^verbatim>\<open>while ((match = re.exec(text)) !== null) { ... }\<close> over a regular expression
  with the \<^verbatim>\<open>g\<close> flag: each search starts where the last match ended.  A match that
  ends at the position where its search started leaves \<^verbatim>\<open>lastIndex\<close> unchanged, and the
  loop then finds the same match for ever: that is the result \<open>None\<close>.
\<close>

function execAll :: "bool \<Rightarrow> regex \<Rightarrow> string \<Rightarrow> string \<Rightarrow> (mstate \<times> mstate) list option" where
  "execAll ic r p s =
     (case search ic r p s of
        None \<Rightarrow> Some []
      | Some (b, e) \<Rightarrow>
          if length (post e) < length s
          then map_option ((#) (b, e)) (execAll ic r (pre e) (post e))
          else None)"
  by pat_completeness auto
termination
  by (relation "measure (\<lambda>(ic, r, p, s). length s)") auto

subsection \<open>The matcher only moves forward\<close>

text \<open>
  Every state the matcher ends in is reached from its start by consuming a piece of the
  remaining input.  This is what makes the loops over successive matches terminate.
\<close>

definition adv :: "mstate \<Rightarrow> mstate \<Rightarrow> bool" where
  "adv st e \<longleftrightarrow> (\<exists>w. post st = w @ post e \<and> pre e = rev w @ pre st)"

lemma adv_refl: "adv st st"
  by (simp add: adv_def)

lemma adv_trans: "adv a b \<Longrightarrow> adv b c \<Longrightarrow> adv a c"
  by (auto simp: adv_def)

lemma accept_adv: "e \<in> set (accept p st) \<Longrightarrow> adv st e"
  by (auto simp: accept_def step_def adv_def split: list.splits if_splits)

lemma iter_adv:
  assumes f: "\<And>st e. e \<in> set (f st) \<Longrightarrow> adv st e"
  shows "e \<in> set (iter g fuel f st) \<Longrightarrow> adv st e"
proof (induction fuel arbitrary: st e)
  case Nil
  then show ?case by (simp add: adv_refl)
next
  case (Cons x fuel)
  then show ?case
    by (auto simp: adv_refl split: if_splits dest!: f intro: adv_trans)
qed

lemma ms_adv: "e \<in> set (ms ic r st) \<Longrightarrow> adv st e"
proof (induction r arbitrary: st e)
  case (Seq r1 r2)
  from Seq.prems obtain m where "m \<in> set (ms ic r1 st)" "e \<in> set (ms ic r2 m)" by auto
  then show ?case using Seq.IH adv_trans by blast
next
  case (Star g r)
  then show ?case by (auto intro: iter_adv)
next
  case (Group n r)
  then have "\<exists>e'. e' \<in> set (ms ic r st) \<and> post e = post e' \<and> pre e = pre e'" by auto
  with Group.IH show ?case by (auto simp: adv_def)
next
  case (Backref n)
  then show ?case
    by (auto simp: adv_def adv_refl split: option.splits if_splits)
qed (auto simp: accept_adv adv_refl split: if_splits)

lemma search_adv:
  "search ic r p s = Some (b, e) \<Longrightarrow>
     (\<exists>u. s = u @ post b \<and> pre b = rev u @ p) \<and> caps b = [] \<and> adv b e \<and> e \<in> set (ms ic r b)"
proof (induction s arbitrary: p)
  case Nil
  then have "b = \<lparr>pre = p, post = [], caps = []\<rparr>" "e \<in> set (ms ic r b)"
    by (auto split: list.splits)
  then show ?case by (auto intro: ms_adv)
next
  case (Cons c cs)
  show ?case
  proof (cases "ms ic r \<lparr>pre = p, post = c # cs, caps = []\<rparr>")
    case Nil
    with Cons.prems have "search ic r (c # p) cs = Some (b, e)" by simp
    from Cons.IH[OF this] show ?thesis by (auto intro: exI[of _ "c # u" for u])
  next
    case (Cons e' es)
    with Cons.prems have b: "b = \<lparr>pre = p, post = c # cs, caps = []\<rparr>" and "e = e'" by auto
    with Cons have "e \<in> set (ms ic r b)" by simp
    with b show ?thesis by (auto intro: ms_adv)
  qed
qed

lemma search_length:
  assumes "search ic r p s = Some (b, e)"
  shows "length (post e) \<le> length (post b)" and "length (post b) \<le> length s"
  using search_adv[OF assms] by (auto simp: adv_def)

text \<open>
  \<^verbatim>\<open>String.prototype.replace\<close> with a regular expression with the \<^verbatim>\<open>g\<close> flag and a
  replacement computed from each match: the matches are found from left to right, each
  search starting where the last match ended, and one character further on after an
  empty match.
\<close>

function replaceAllRx :: "bool \<Rightarrow> regex \<Rightarrow> (mstate \<times> mstate \<Rightarrow> string) \<Rightarrow> string \<Rightarrow> string \<Rightarrow> string" where
  "replaceAllRx ic r f p s =
     (case search ic r p s of
        None \<Rightarrow> s
      | Some (b, e) \<Rightarrow>
          skipped p b @ f (b, e) @
          (if length (post e) < length (post b)
           then replaceAllRx ic r f (pre e) (post e)
           else (case post e of
                   [] \<Rightarrow> []
                 | c # cs \<Rightarrow> c # replaceAllRx ic r f (c # pre e) cs)))"
  by pat_completeness auto
termination
proof (relation "measure (\<lambda>(ic, r, f, p, s). length s)")
  show "wf (measure (\<lambda>(ic, r, f, p, s). length s))" by simp
next
  fix ic r p s x2 b e and f :: "mstate \<times> mstate \<Rightarrow> string"
  assume "search ic r p s = Some x2" "(b, e) = x2" "length (post e) < length (post b)"
  then show "((ic, r, f, pre e, post e), (ic, r, f, p, s)) \<in> measure (\<lambda>(ic, r, f, p, s). length s)"
    using search_length(2)[of ic r p s b e] by simp
next
  fix ic r p s x2 b e c cs and f :: "mstate \<times> mstate \<Rightarrow> string"
  assume "search ic r p s = Some x2" "(b, e) = x2" "post e = c # cs"
  then show "((ic, r, f, c # pre e, cs), (ic, r, f, p, s)) \<in> measure (\<lambda>(ic, r, f, p, s). length s)"
    using search_length[of ic r p s b e] by simp
qed

definition replaceAll :: "bool \<Rightarrow> regex \<Rightarrow> (mstate \<times> mstate \<Rightarrow> string) \<Rightarrow> string \<Rightarrow> string" where
  "replaceAll ic r f s = replaceAllRx ic r f [] s"

section \<open>The artifact extractor (\<^verbatim>\<open>parseGeneratedContent\<close>, \<^verbatim>\<open>cleanResponseText\<close>)\<close>

record GeneratedFile =
  name :: string
  language :: string
  content :: string

abbreviation nl :: char where
  "nl \<equiv> CHR 0x0A"

text \<open>\<^verbatim>\<open>/\*\*\*FILE_START:\s*(.*?)\s*\*\*\*([\s\S]*?)\*\*\*FILE_END\*\*\*/g\<close>\<close>

definition delimiterRegex :: regex where
  "delimiterRegex =
     cat [Str ''***FILE_START:'', Star True ws, Group 1 (Star False Dot), Star True ws,
          Str ''***'', Group 2 (Star False anyChar), Str ''***FILE_END***'']"

text \<open>\<^verbatim>\<open>/^```[a-z]*\n/i\<close> and \<^verbatim>\<open>/\n```$/\<close>\<close>

definition fenceOpenRegex :: regex where
  "fenceOpenRegex =
     cat [Bol, Str ''```'', Star True (Cls False [CRange CHR ''a'' CHR ''z'']), Chr nl]"

definition fenceCloseRegex :: regex where
  "fenceCloseRegex = cat [Chr nl, Str ''```'', Eol]"

text \<open>\<^verbatim>\<open>String.prototype.replace\<close> with a regular expression without the \<^verbatim>\<open>g\<close> flag.\<close>

definition replaceFirstRx :: "bool \<Rightarrow> regex \<Rightarrow> (mstate \<times> mstate \<Rightarrow> string) \<Rightarrow> string \<Rightarrow> string" where
  "replaceFirstRx ic r f s =
     (case search ic r [] s of
        None \<Rightarrow> s
      | Some (b, e) \<Rightarrow> rev (pre b) @ f (b, e) @ post e)"

text \<open>\<^verbatim>\<open>filename.split('.').pop()?.toLowerCase() || 'text'\<close>\<close>

definition extOf :: "string \<Rightarrow> string" where
  "extOf filename =
     (let e = toLowerCase (last (split filename ''.'')) in if e = [] then ''text'' else e)"

definition stripFences :: "string \<Rightarrow> string" where
  "stripFences c =
     replaceFirstRx False fenceCloseRegex (\<lambda>m. [])
       (replaceFirstRx True fenceOpenRegex (\<lambda>m. []) c)"

text \<open>The body of the first loop, for one match of \<open>delimiterRegex\<close>.\<close>

definition primaryFile :: "mstate \<times> mstate \<Rightarrow> GeneratedFile" where
  "primaryFile m =
     (let filename = trim (group (snd m) 1);
          content = trim (group (snd m) 2);
          ext = extOf filename
      in \<lparr>name = filename, language = ext, content = stripFences content\<rparr>)"

text \<open>\<^verbatim>\<open>/(`{3,})([a-zA-Z0-9_-]*)\n([\s\S]*?)\1/g\<close>\<close>

definition codeBlockRegex :: regex where
  "codeBlockRegex =
     cat [Group 1 (cat [Chr CHR ''`'', Chr CHR ''`'', Chr CHR ''`'', Star True (Chr CHR ''`'')]),
          Group 2 (Star True (Cls False [CRange CHR ''a'' CHR ''z'', CRange CHR ''A'' CHR ''Z'',
                                         CRange CHR ''0'' CHR ''9'', CChr CHR ''_'', CChr CHR ''-''])),
          Chr nl, Group 3 (Star False anyChar), Backref 1]"

text \<open>\<^verbatim>\<open>/(?:file|filename):\s*([a-zA-Z0-9_./-]+)/i\<close> and \<^verbatim>\<open>/^([a-zA-Z0-9_./-]+):$/\<close>\<close>

definition nameChars :: regex where
  "nameChars =
     Cls False [CRange CHR ''a'' CHR ''z'', CRange CHR ''A'' CHR ''Z'', CRange CHR ''0'' CHR ''9'',
                CChr CHR ''_'', CChr CHR ''.'', CChr CHR ''/'', CChr CHR ''-'']"

definition fileLabelRegex :: regex where
  "fileLabelRegex =
     cat [alts [Str ''file'', Str ''filename''], Chr CHR '':'', Star True ws, Group 1 (Plus nameChars)]"

definition bareNameRegex :: regex where
  "bareNameRegex = cat [Bol, Group 1 (Plus nameChars), Chr CHR '':'', Eol]"

text \<open>Decimal digits of a number, for \<^verbatim>\<open>file_${fileCounter}\<close>.\<close>

fun showNat :: "nat \<Rightarrow> string" where
  "showNat n =
     (if n < 10 then [''0123456789'' ! n]
      else showNat (n div 10) @ [''0123456789'' ! (n mod 10)])"

declare showNat.simps [simp del]

text \<open>The body of the second loop, for one match of \<open>codeBlockRegex\<close>.\<close>

definition fallbackFile :: "nat \<Rightarrow> mstate \<times> mstate \<Rightarrow> GeneratedFile" where
  "fallbackFile fileCounter m =
     (let lang = (if group (snd m) 2 = [] then ''text'' else group (snd m) 2);
          content = trim (group (snd m) 3);
          precedingText = split (trim (rev (pre (fst m)))) [nl];
          lastLine = last precedingText;
          filename = ''file_'' @ showNat fileCounter @ ''.'' @
            (if lang = ''typescript'' \<or> lang = ''ts'' then ''ts''
             else if lang = ''javascript'' \<or> lang = ''js'' then ''js'' else ''txt'');
          nameMatch = (case matchRx True fileLabelRegex lastLine of
                         Some m1 \<Rightarrow> Some m1
                       | None \<Rightarrow> matchRx False bareNameRegex lastLine)
      in \<lparr>name = (case nameMatch of Some m1 \<Rightarrow> group (snd m1) 1 | None \<Rightarrow> filename),
          language = lang, content = content\<rparr>)"

fun fallbackFiles :: "nat \<Rightarrow> (mstate \<times> mstate) list \<Rightarrow> GeneratedFile list" where
  "fallbackFiles fileCounter [] = []"
| "fallbackFiles fileCounter (m # rest) = fallbackFile fileCounter m # fallbackFiles (fileCounter + 1) rest"

text \<open>
  \<^verbatim>\<open>parseGeneratedContent\<close>.  The result is \<open>None\<close> when one of the two loops does not
  end.
\<close>

definition parseGeneratedContent :: "string \<Rightarrow> GeneratedFile list option" where
  "parseGeneratedContent text =
     (case execAll False delimiterRegex [] text of
        None \<Rightarrow> None
      | Some found \<Rightarrow>
          let files = map primaryFile found in
          if length files = 0
          then map_option (fallbackFiles 1) (execAll False codeBlockRegex [] text)
          else Some files)"

text \<open>\<^verbatim>\<open>/\*\*\*FILE_START[\s\S]*?\*\*\*FILE_END\*\*\*/g\<close>\<close>

definition fileBlockRegex :: regex where
  "fileBlockRegex = cat [Str ''***FILE_START'', Star False anyChar, Str ''***FILE_END***'']"

definition cleanResponseText :: "string \<Rightarrow> string" where
  "cleanResponseText text = trim (replaceAll False fileBlockRegex (\<lambda>m. []) text)"

section \<open>The preview assembler (\<^verbatim>\<open>utils/compiler.ts\<close>)\<close>

subsection \<open>Replacement with a string pattern\<close>

text \<open>
  \<^verbatim>\<open>String.prototype.replace\<close> with a string pattern replaces the first occurrence of
  the pattern.  The replacement string is not taken literally: \<^verbatim>\<open>$$\<close> stands for a
  dollar sign, \<^verbatim>\<open>$&\<close> for the matched text, \<^verbatim>\<open>$`\<close> for the text before the match and
  \<^verbatim>\<open>$'\<close> for the text after it.  A string pattern has no capture groups, so a dollar
  sign before anything else stands for itself.
\<close>

fun substitute :: "string \<Rightarrow> string \<Rightarrow> string \<Rightarrow> string \<Rightarrow> string" where
  "substitute m b a [] = []"
| "substitute m b a [c] = [c]"
| "substitute m b a (c # d # t) =
     (if c = CHR ''$'' then
        (if d = CHR ''$'' then CHR ''$'' # substitute m b a t
         else if d = CHR ''&'' then m @ substitute m b a t
         else if d = CHR ''`'' then b @ substitute m b a t
         else if d = CHR 0x27 then a @ substitute m b a t
         else c # substitute m b a (d # t))
      else c # substitute m b a (d # t))"

text \<open>The text before and after the first occurrence of a string.\<close>

fun findStr :: "string \<Rightarrow> string \<Rightarrow> string \<Rightarrow> (string \<times> string) option" where
  "findStr needle acc [] = (if needle = [] then Some (rev acc, []) else None)"
| "findStr needle acc (c # cs) =
     (if prefix needle (c # cs) then Some (rev acc, drop (length needle) (c # cs))
      else findStr needle (c # acc) cs)"

definition replaceStr :: "string \<Rightarrow> string \<Rightarrow> string \<Rightarrow> string" where
  "replaceStr s pat repl =
     (case findStr pat [] s of
        None \<Rightarrow> s
      | Some (b, a) \<Rightarrow> b @ substitute pat b a repl @ a)"

text \<open>
  The matches that \<^verbatim>\<open>String.prototype.replace\<close> visits with a regular expression with
  the \<^verbatim>\<open>g\<close> flag, in order: the arguments of the successive calls of a replacement
  function.  The recursion is that of \<open>replaceAllRx\<close>.
\<close>

function matchAllRx :: "bool \<Rightarrow> regex \<Rightarrow> string \<Rightarrow> string \<Rightarrow> (mstate \<times> mstate) list" where
  "matchAllRx ic r p s =
     (case search ic r p s of
        None \<Rightarrow> []
      | Some (b, e) \<Rightarrow>
          (b, e) #
          (if length (post e) < length (post b)
           then matchAllRx ic r (pre e) (post e)
           else (case post e of
                   [] \<Rightarrow> []
                 | c # cs \<Rightarrow> matchAllRx ic r (c # pre e) cs)))"
  by pat_completeness auto
termination
proof (relation "measure (\<lambda>(ic, r, p, s). length s)")
  show "wf (measure (\<lambda>(ic, r, p, s). length s))" by simp
next
  fix ic r p s x2 b e
  assume "search ic r p s = Some x2" "(b, e) = x2" "length (post e) < length (post b)"
  then show "((ic, r, pre e, post e), (ic, r, p, s)) \<in> measure (\<lambda>(ic, r, p, s). length s)"
    using search_length(2)[of ic r p s b e] by simp
next
  fix ic r p s x2 b e c cs
  assume "search ic r p s = Some x2" "(b, e) = x2" "post e = c # cs"
  then show "((ic, r, c # pre e, cs), (ic, r, p, s)) \<in> measure (\<lambda>(ic, r, p, s). length s)"
    using search_length[of ic r p s b e] by simp
qed

definition matchAll :: "bool \<Rightarrow> regex \<Rightarrow> string \<Rightarrow> (mstate \<times> mstate) list" where
  "matchAll ic r s = matchAllRx ic r [] s"

subsection \<open>\<^verbatim>\<open>transpileCppToJs\<close>\<close>

abbreviation dq :: char where
  "dq \<equiv> CHR 0x22"

abbreviation sq :: char where
  "sq \<equiv> CHR 0x27"

abbreviation bs :: char where
  "bs \<equiv> CHR 0x5C"

text \<open>\<^verbatim>\<open>/#include\s+<.*?>/g\<close>, \<^verbatim>\<open>/using\s+namespace\s+std;/g\<close>, \<^verbatim>\<open>/return\s+0;/g\<close>\<close>

definition includeRegex :: regex where
  "includeRegex = cat [Str ''#include'', Plus ws, Chr CHR ''<'', Star False Dot, Chr CHR ''>'']"

definition usingRegex :: regex where
  "usingRegex = cat [Str ''using'', Plus ws, Str ''namespace'', Plus ws, Str ''std;'']"

definition returnRegex :: regex where
  "returnRegex = cat [Str ''return'', Plus ws, Str ''0;'']"

text \<open>\<^verbatim>\<open>/int\s+main\s*\(\)\s*\{([\s\S]*)\}/\<close>\<close>

definition mainRegex :: regex where
  "mainRegex =
     cat [Str ''int'', Plus ws, Str ''main'', Star True ws, Str ''()'', Star True ws,
          Chr CHR ''{'', Group 1 (Star True anyChar), Chr CHR ''}'']"

text \<open>
  \<^verbatim>\<open>/\blong\s+long\b/g\<close>,
  \<^verbatim>\<open>/\b(int|long|float|double|char|string|bool|auto|const)\b/g\<close>, \<^verbatim>\<open>/std::/g\<close>
\<close>

definition longLongRegex :: regex where
  "longLongRegex = cat [WordB, Str ''long'', Plus ws, Str ''long'', WordB]"

definition typeRegex :: regex where
  "typeRegex =
     cat [WordB,
          Group 1 (alts [Str ''int'', Str ''long'', Str ''float'', Str ''double'', Str ''char'',
                         Str ''string'', Str ''bool'', Str ''auto'', Str ''const'']),
          WordB]"

definition stdRegex :: regex where
  "stdRegex = Str ''std::''"

text \<open>\<^verbatim>\<open>/cin\s*>>\s*([a-zA-Z0-9_]+)\s*;/g\<close>\<close>

definition cinRegex :: regex where
  "cinRegex =
     cat [Str ''cin'', Star True ws, Str ''>>'', Star True ws,
          Group 1 (Plus (Cls False [CRange CHR ''a'' CHR ''z'', CRange CHR ''A'' CHR ''Z'',
                                    CRange CHR ''0'' CHR ''9'', CChr CHR ''_''])),
          Star True ws, Chr CHR '';'']"

text \<open>The replacement function of step 5, applied to the captured variable name.\<close>

definition cinPrompt :: "string \<Rightarrow> string" where
  \<open>cinPrompt varName =
     varName @ '' = prompt("Interactive Input required for '' @ [sq] @ varName @ [sq] @ '':");\<newline>'' @
     ''if('' @ varName @ '' !== null && !isNaN(Number('' @ varName @ '')) && '' @ varName @
       ''.trim() !== '' @ [sq, sq] @ '') '' @ varName @ '' = Number('' @ varName @ '');\<newline>'' @
     ''console.log("[Input] '' @ varName @ '' =", '' @ varName @ '');''\<close>

text \<open>\<^verbatim>\<open>/^cout\s*<<\s*/\<close> and \<^verbatim>\<open>/;$/\<close>\<close>

definition coutHeadRegex :: regex where
  "coutHeadRegex = cat [Bol, Str ''cout'', Star True ws, Str ''<<'', Star True ws]"

definition semicolonEndRegex :: regex where
  "semicolonEndRegex = cat [Chr CHR '';'', Eol]"

text \<open>
  Step 6, for one line: the function mapped over \<^verbatim>\<open>lines\<close>.  \<open>coutStatement\<close> is the
  body of its \<^verbatim>\<open>if\<close>, applied to \<^verbatim>\<open>line.trim()\<close>.
\<close>

definition coutStatement :: "string \<Rightarrow> string" where
  \<open>coutStatement trimmed =
     (let content = trimmed;
          content = replaceFirstRx False coutHeadRegex (\<lambda>m. []) content;
          content = replaceFirstRx False semicolonEndRegex (\<lambda>m. []) content;
          parts = map trim (split content ''<<'');
          jsParts = map (\<lambda>p. if p = ''endl'' then [dq, bs] @ ''n'' @ [dq] else p) parts
      in ''console.log('' @ join jsParts '', '' @ '');'')\<close>

definition coutLine :: "string \<Rightarrow> string" where
  "coutLine line = (if startsWith (trim line) ''cout'' then coutStatement (trim line) else line)"

text \<open>Steps 1 to 5: the text whose lines step 6 rewrites.\<close>

definition cppBody :: "string \<Rightarrow> string" where
  "cppBody code =
     (let js = code;
          js = replaceAll False includeRegex (\<lambda>m. []) js;
          js = replaceAll False usingRegex (\<lambda>m. []) js;
          js = replaceAll False returnRegex (\<lambda>m. []) js;
          js = (case matchRx False mainRegex js of Some mainMatch \<Rightarrow> group (snd mainMatch) 1 | None \<Rightarrow> js);
          js = replaceAll False longLongRegex (\<lambda>m. ''let'') js;
          js = replaceAll False typeRegex (\<lambda>m. ''let'') js;
          js = replaceAll False stdRegex (\<lambda>m. []) js;
          js = replaceAll False cinRegex (\<lambda>m. cinPrompt (group (snd m) 1)) js
      in js)"

text \<open>The template that \<^verbatim>\<open>transpileCppToJs\<close> returns, before and after \<^verbatim>\<open>${js}\<close>.  The lightning sign U+26A1 of the banner, the one code unit of the program text above 255, is written as its three UTF-8 bytes; no operation inspects it.\<close>

definition cppScriptHead :: string where
  \<open>cppScriptHead =
     ''\<newline>'' @
     ''    console.log("'' @ [CHR 0xE2, CHR 0x9A, CHR 0xA1] @ '' C++ Interactive Simulation Started");\<newline>'' @
     ''    console.log("-------------------------------------");\<newline>'' @
     ''    try {\<newline>'' @
     ''      (async function() {\<newline>'' @
     ''        ''\<close>

definition cppScriptTail :: string where
  \<open>cppScriptTail =
     ''\<newline>'' @
     ''      })();\<newline>'' @
     ''      console.log("-------------------------------------");\<newline>'' @
     ''      console.log("Process finished with exit code 0");\<newline>'' @
     ''    } catch (e) {\<newline>'' @
     ''      console.error("Runtime Error:", e.message);\<newline>'' @
     ''    }\<newline>'' @
     ''  ''\<close>

definition transpileCppToJs :: "string \<Rightarrow> string" where
  "transpileCppToJs code =
     (let lines = split (cppBody code) [nl];
          processedLines = map coutLine lines;
          js = join processedLines [nl]
      in cppScriptHead @ js @ cppScriptTail)"

subsection \<open>\<^verbatim>\<open>simulateNativeLanguage\<close>\<close>

text \<open>\<^verbatim>\<open>/\.(cpp|c|h|hpp)$/i\<close>\<close>

definition cFamilyRegex :: regex where
  "cFamilyRegex =
     cat [Chr CHR ''.'', Group 1 (alts [Str ''cpp'', Str ''c'', Str ''h'', Str ''hpp'']), Eol]"

text \<open>
  \<^verbatim>\<open>/print\s*\(\s*(['"])(.*?)\1\s*\)/g\<close>,
  \<^verbatim>\<open>/System\.out\.print(?:ln)?\s*\(\s*"([^"]*)"\s*\)/g\<close> and
  \<^verbatim>\<open>/fmt\.P(?:rint|rintln|rintf)\s*\(\s*"([^"]*)"/g\<close>
\<close>

definition printRegex :: regex where
  "printRegex =
     cat [Str ''print'', Star True ws, Chr CHR ''('', Star True ws,
          Group 1 (Cls False [CChr sq, CChr dq]), Group 2 (Star False Dot), Backref 1,
          Star True ws, Chr CHR '')'']"

definition javaPrintRegex :: regex where
  "javaPrintRegex =
     cat [Str ''System.out.print'', Opt (Str ''ln''), Star True ws, Chr CHR ''('', Star True ws,
          Chr dq, Group 1 (Star True (Cls True [CChr dq])), Chr dq, Star True ws, Chr CHR '')'']"

definition goPrintRegex :: regex where
  "goPrintRegex =
     cat [Str ''fmt.P'', alts [Str ''rint'', Str ''rintln'', Str ''rintf''], Star True ws,
          Chr CHR ''('', Star True ws, Chr dq, Group 1 (Star True (Cls True [CChr dq]))
          , Chr dq]"

text \<open>\<^verbatim>\<open>addLog\<close>: the line pushed for one message.\<close>

definition logLine :: "string \<Rightarrow> string" where
  \<open>logLine msg = ''console.log("'' @ replaceAll False (Chr dq) (\<lambda>m. [bs, dq]) msg @ ''");''\<close>

text \<open>
  The result is \<open>None\<close> when one of the \<^verbatim>\<open>while\<close> loops over the matches does not end.
\<close>

definition simulateNativeLanguage :: "GeneratedFile \<Rightarrow> string option" where
  "simulateNativeLanguage file =
     (if testRx True cFamilyRegex (name file) then Some (transpileCppToJs (content file))
      else
        map_option (\<lambda>logs. join logs [nl])
          (if endsWith (name file) ''.py''
           then map_option (map (\<lambda>m. logLine (group (snd m) 2)))
                  (execAll False printRegex [] (content file))
           else if endsWith (name file) ''.java''
           then map_option (map (\<lambda>m. logLine (group (snd m) 1)))
                  (execAll False javaPrintRegex [] (content file))
           else if endsWith (name file) ''.go''
           then map_option (map (\<lambda>m. logLine (group (snd m) 1)))
                  (execAll False goPrintRegex [] (content file))
           else Some [logLine (''[System] Compiled '' @ name file @ '' successfully.'')]))"

subsection \<open>\<^verbatim>\<open>assemblePreview\<close>: the files it selects\<close>

text \<open>\<^verbatim>\<open>/\.(js|jsx|ts|tsx)$/\<close> and \<^verbatim>\<open>/\.(cpp|c|py|java|rs|go|php)$/i\<close>\<close>

definition jsNameRegex :: regex where
  "jsNameRegex =
     cat [Chr CHR ''.'', Group 1 (alts [Str ''js'', Str ''jsx'', Str ''ts'', Str ''tsx'']), Eol]"

definition nativeNameRegex :: regex where
  "nativeNameRegex =
     cat [Chr CHR ''.'',
          Group 1 (alts [Str ''cpp'', Str ''c'', Str ''py'', Str ''java'', Str ''rs'', Str ''go'',
                         Str ''php'']),
          Eol]"

definition previewHtmlFile :: "GeneratedFile list \<Rightarrow> GeneratedFile option" where
  "previewHtmlFile files = find (\<lambda>f. toLowerCase (name f) = ''preview.html'') files"

definition htmlFile :: "GeneratedFile list \<Rightarrow> GeneratedFile option" where
  "htmlFile files = find (\<lambda>f. endsWith (name f) ''.html'' \<and> name f \<noteq> ''preview.html'') files"

definition cssFiles :: "GeneratedFile list \<Rightarrow> GeneratedFile list" where
  "cssFiles files = filter (\<lambda>f. endsWith (name f) ''.css'') files"

definition jsFiles :: "GeneratedFile list \<Rightarrow> GeneratedFile list" where
  "jsFiles files = filter (\<lambda>f. testRx False jsNameRegex (name f)) files"

definition nativeFile :: "GeneratedFile list \<Rightarrow> GeneratedFile option" where
  "nativeFile files = find (\<lambda>f. testRx True nativeNameRegex (name f)) files"

definition liquidFile :: "GeneratedFile list \<Rightarrow> GeneratedFile option" where
  "liquidFile files = find (\<lambda>f. endsWith (name f) ''.liquid'') files"

definition isNative :: "GeneratedFile list \<Rightarrow> bool" where
  "isNative files \<longleftrightarrow>
     previewHtmlFile files = None \<and> htmlFile files = None \<and> length (jsFiles files) = 0 \<and>
     nativeFile files \<noteq> None"

definition hasReactSignature :: "string \<Rightarrow> bool" where
  \<open>hasReactSignature c \<longleftrightarrow>
     includesStr c ''import React'' \<or> includesStr c ''react-dom'' \<or>
     includesStr c ''from "react"'' \<or> includesStr c (''from '' @ [sq] @ ''react'' @ [sq])\<close>

definition isReact :: "GeneratedFile list \<Rightarrow> bool" where
  "isReact files \<longleftrightarrow> list_ex (\<lambda>f. hasReactSignature (content f)) (jsFiles files)"

subsection \<open>The native document\<close>

text \<open>The constant \<^verbatim>\<open>consoleHook\<close>.\<close>

definition consoleHook :: string where
  \<open>consoleHook =
     ''\<newline>'' @
     ''<script>\<newline>'' @
     ''  (function() {\<newline>'' @
     ''    function send(type, args) {\<newline>'' @
     ''      try {\<newline>'' @
     ''        const message = args.map(arg => {\<newline>'' @
     ''          if (arg === null) return 'null';\<newline>'' @
     ''          if (arg === undefined) return 'undefined';\<newline>'' @
     ''          if (typeof arg === 'object') {\<newline>'' @
     ''            try { return JSON.stringify(arg, null, 2); } catch(e) { return arg.toString(); }\<newline>'' @
     ''          }\<newline>'' @
     ''          return String(arg);\<newline>'' @
     ''        }).join(' ');\<newline>'' @
     ''        window.parent.postMessage({ source: 'PREVIEW_CONSOLE', type, message }, '*');\<newline>'' @
     ''      } catch (e) {\<newline>'' @
     ''        console.error('Failed to send console log', e);\<newline>'' @
     ''      }\<newline>'' @
     ''    }\<newline>'' @
     ''\<newline>'' @
     ''    const originalLog = console.log;\<newline>'' @
     ''    const originalError = console.error;\<newline>'' @
     ''    const originalWarn = console.warn;\<newline>'' @
     ''    const originalInfo = console.info;\<newline>'' @
     ''\<newline>'' @
     ''    console.log = function(...args) { originalLog.apply(console, args); send('log', args); };\<newline>'' @
     ''    console.error = function(...args) { originalError.apply(console, args); send('error', args); };\<newline>'' @
     ''    console.warn = function(...args) { originalWarn.apply(console, args); send('warn', args); };\<newline>'' @
     ''    console.info = function(...args) { originalInfo.apply(console, args); send('info', args); };\<newline>'' @
     ''    \<newline>'' @
     ''    // Global Error Handler for Preview\<newline>'' @
     ''    window.onerror = function(message, source, lineno, colno, error) {\<newline>'' @
     ''       send('error', [message]);\<newline>'' @
     ''       \<newline>'' @
     ''       // Display error on screen if root is empty (likely a crash before render)\<newline>'' @
     ''       const root = document.getElementById('root');\<newline>'' @
     ''       if (root && root.innerHTML.trim() === '' @ [CHR 0x27, CHR 0x27] @ '') {\<newline>'' @
     ''         root.innerHTML = '<div style="color: #f87171; background: #450a0a; padding: 20px; font-family: system-ui, sans-serif; border-radius: 8px; margin: 20px; border: 1px solid #7f1d1d;">' +\<newline>'' @
     ''           '<h3 style="margin-top:0">Preview Error</h3>' +\<newline>'' @
     ''           '<pre style="white-space: pre-wrap;">' + message + '</pre>' +\<newline>'' @
     ''           '<p style="opacity: 0.8; font-size: 0.9em; margin-top: 10px;">Check console for details.</p>' +\<newline>'' @
     ''         '</div>';\<newline>'' @
     ''       }\<newline>'' @
     ''       return false;\<newline>'' @
     ''    };\<newline>'' @
     ''\<newline>'' @
     ''    // Unhandled Rejection Handler\<newline>'' @
     ''    window.addEventListener('unhandledrejection', function(event) {\<newline>'' @
     ''       send('error', ['Unhandled Promise Rejection: ' + event.reason]);\<newline>'' @
     ''    });\<newline>'' @
     ''  })();\<newline>'' @
     ''</script>''\<close>

text \<open>The document of the native branch, around \<^verbatim>\<open>${consoleHook}\<close> and \<^verbatim>\<open>${simulationScript}\<close>.\<close>

definition nativeDocA :: string where
  \<open>nativeDocA =
     ''\<newline>'' @
     ''<!DOCTYPE html>\<newline>'' @
     ''<html>\<newline>'' @
     ''<head>\<newline>'' @
     ''  <meta charset="utf-8">\<newline>'' @
     ''  ''\<close>

definition nativeDocB :: string where
  \<open>nativeDocB =
     ''\<newline>'' @
     ''  <style>body { background-color: #0f172a; color: #f8fafc; font-family: monospace; padding: 20px; }</style>\<newline>'' @
     ''</head>\<newline>'' @
     ''<body>\<newline>'' @
     ''  <script>\<newline>'' @
     ''    setTimeout(() => {\<newline>'' @
     ''      ''\<close>

definition nativeDocC :: string where
  \<open>nativeDocC =
     ''\<newline>'' @
     ''    }, 500);\<newline>'' @
     ''  </script>\<newline>'' @
     ''</body>\<newline>'' @
     ''</html>''\<close>

definition nativeDocument :: "string \<Rightarrow> string" where
  "nativeDocument simulationScript =
     nativeDocA @ consoleHook @ nativeDocB @ simulationScript @ nativeDocC"

subsection \<open>The base document\<close>

text \<open>\<^verbatim>\<open>cssFiles.map(f => `/* ${f.name} */\n${f.content}`).join('\n')\<close>\<close>

definition cssAssembly :: "GeneratedFile list \<Rightarrow> string" where
  "cssAssembly files =
     join (map (\<lambda>f. ''/* '' @ name f @ '' */'' @ [nl] @ content f) (cssFiles files)) [nl]"

text \<open>
  The regular expressions of the Liquid conversion:
  \<^verbatim>\<open>/{% schema %}[\s\S]*?{% endschema %}/g\<close>,
  \<^verbatim>\<open>/{% stylesheet %}([\s\S]*?){% endstylesheet %}/\<close> and the same without the group and
  with the \<^verbatim>\<open>g\<close> flag,
  \<^verbatim>\<open>/{% javascript %}([\s\S]*?){% endjavascript %}/\<close> and the same without the group and
  with the \<^verbatim>\<open>g\<close> flag,
  \<^verbatim>\<open>/\{\{\s*section\.settings\.[^}]*img_url[^}]*\}\}/g\<close>,
  \<^verbatim>\<open>/\{\{\s*[^}]*\|\s*img_url[^}]*\}\}/g\<close>,
  \<^verbatim>\<open>/\{\{\s*section\.settings\.([^}]+)\s*\}\}/g\<close>,
  \<^verbatim>\<open>/\{\{\s*([^}]+)\s*\}\}/g\<close> and \<^verbatim>\<open>/{%[^%]*%}/g\<close>.
\<close>

definition schemaRegex :: regex where
  "schemaRegex = cat [Str ''{% schema %}'', Star False anyChar, Str ''{% endschema %}'']"

definition stylesheetMatchRegex :: regex where
  "stylesheetMatchRegex =
     cat [Str ''{% stylesheet %}'', Group 1 (Star False anyChar), Str ''{% endstylesheet %}'']"

definition stylesheetRegex :: regex where
  "stylesheetRegex = cat [Str ''{% stylesheet %}'', Star False anyChar, Str ''{% endstylesheet %}'']"

definition javascriptMatchRegex :: regex where
  "javascriptMatchRegex =
     cat [Str ''{% javascript %}'', Group 1 (Star False anyChar), Str ''{% endjavascript %}'']"

definition javascriptRegex :: regex where
  "javascriptRegex = cat [Str ''{% javascript %}'', Star False anyChar, Str ''{% endjavascript %}'']"

abbreviation notBrace :: regex where
  "notBrace \<equiv> Cls True [CChr CHR ''}'']"

definition sectionImageRegex :: regex where
  "sectionImageRegex =
     cat [Str ''{{'', Star True ws, Str ''section.settings.'', Star True notBrace, Str ''img_url'',
          Star True notBrace, Str ''}}'']"

definition imageRegex :: regex where
  "imageRegex =
     cat [Str ''{{'', Star True ws, Star True notBrace, Chr CHR ''|'', Star True ws, Str ''img_url'',
          Star True notBrace, Str ''}}'']"

definition settingRegex :: regex where
  "settingRegex =
     cat [Str ''{{'', Star True ws, Str ''section.settings.'', Group 1 (Plus notBrace), Star True ws,
          Str ''}}'']"

definition expressionRegex :: regex where
  "expressionRegex = cat [Str ''{{'', Star True ws, Group 1 (Plus notBrace), Star True ws, Str ''}}'']"

definition logicTagRegex :: regex where
  "logicTagRegex = cat [Str ''{%'', Star True (Cls True [CChr CHR ''%'']), Str ''%}'']"

text \<open>
  The two replacement patterns \<^verbatim>\<open>'<span data-liquid="$1">[Setting: $1]</span>'\<close> and
  \<^verbatim>\<open>'<!-- $1 -->'\<close>, in which \<^verbatim>\<open>$1\<close> stands for the first capture group.
\<close>

definition settingSpan :: "string \<Rightarrow> string" where
  \<open>settingSpan g = ''<span data-liquid="'' @ g @ ''">[Setting: '' @ g @ '']</span>''\<close>

definition expressionComment :: "string \<Rightarrow> string" where
  "expressionComment g = ''<!-- '' @ g @ '' -->''"

text \<open>The document of the Liquid branch, around \<^verbatim>\<open>${liquidContent}\<close> and \<^verbatim>\<open>${liquidJs}\<close>.\<close>

definition liquidDocA :: string where
  \<open>liquidDocA =
     ''\<newline>'' @
     ''<!DOCTYPE html>\<newline>'' @
     ''<html lang="en">\<newline>'' @
     ''<head>\<newline>'' @
     ''  <meta charset="UTF-8">\<newline>'' @
     ''  <meta name="viewport" content="width=device-width, initial-scale=1.0">\<newline>'' @
     ''  <title>Liquid Preview</title>\<newline>'' @
     ''  <style>\<newline>'' @
     ''    body, html { \<newline>'' @
     ''      background-color: #ffffff; \<newline>'' @
     ''      color: #1e293b; \<newline>'' @
     ''      margin: 0; \<newline>'' @
     ''      padding: 0;\<newline>'' @
     ''      height: 100%;\<newline>'' @
     ''      width: 100%;\<newline>'' @
     ''      font-family: system-ui, -apple-system, sans-serif; \<newline>'' @
     ''    }\<newline>'' @
     ''  </style>\<newline>'' @
     ''</head>\<newline>'' @
     ''<body>\<newline>'' @
     ''  ''\<close>

definition liquidDocB :: string where
  \<open>liquidDocB =
     ''\<newline>'' @
     ''  <script>''\<close>

definition liquidDocC :: string where
  \<open>liquidDocC =
     ''</script>\<newline>'' @
     ''</body>\<newline>'' @
     ''</html>''\<close>

text \<open>
  The Liquid conversion: the document it builds, and the style sheet text it appends to
  \<^verbatim>\<open>css\<close>.
\<close>

definition liquidStripped :: "string \<Rightarrow> string" where
  "liquidStripped c = replaceAll False schemaRegex (\<lambda>m. []) c"

definition liquidCss :: "string \<Rightarrow> string" where
  "liquidCss c =
     (case matchRx False stylesheetMatchRegex (liquidStripped c) of
        Some styleMatch \<Rightarrow> [nl] @ ''/* Liquid Stylesheet */'' @ [nl] @ group (snd styleMatch) 1
      | None \<Rightarrow> [])"

definition liquidDocument :: "string \<Rightarrow> string" where
  "liquidDocument c =
     (let liquidContent = liquidStripped c;
          liquidContent =
            (case matchRx False stylesheetMatchRegex liquidContent of
               Some styleMatch \<Rightarrow> replaceAll False stylesheetRegex (\<lambda>m. []) liquidContent
             | None \<Rightarrow> liquidContent);
          jsMatch = matchRx False javascriptMatchRegex liquidContent;
          liquidJs = (case jsMatch of Some m \<Rightarrow> group (snd m) 1 | None \<Rightarrow> []);
          liquidContent =
            (case jsMatch of
               Some m \<Rightarrow> replaceAll False javascriptRegex (\<lambda>m. []) liquidContent
             | None \<Rightarrow> liquidContent);
          liquidContent =
            replaceAll False sectionImageRegex
              (\<lambda>m. ''https://placehold.co/600x400?text=Section+Image'') liquidContent;
          liquidContent =
            replaceAll False imageRegex (\<lambda>m. ''https://placehold.co/600x400?text=Image'') liquidContent;
          liquidContent =
            replaceAll False settingRegex (\<lambda>m. settingSpan (group (snd m) 1)) liquidContent;
          liquidContent =
            replaceAll False expressionRegex (\<lambda>m. expressionComment (group (snd m) 1)) liquidContent;
          liquidContent = replaceAll False logicTagRegex (\<lambda>m. []) liquidContent
      in liquidDocA @ liquidContent @ liquidDocB @ liquidJs @ liquidDocC)"

text \<open>The document with the empty root element, used when there is no other base document.\<close>

definition emptyRootShell :: string where
  \<open>emptyRootShell =
     ''\<newline>'' @
     ''<!DOCTYPE html>\<newline>'' @
     ''<html lang="en">\<newline>'' @
     ''<head>\<newline>'' @
     ''  <meta charset="UTF-8">\<newline>'' @
     ''  <meta name="viewport" content="width=device-width, initial-scale=1.0">\<newline>'' @
     ''  <title>Preview</title>\<newline>'' @
     ''  <style>\<newline>'' @
     ''    body, html { \<newline>'' @
     ''      background-color: #ffffff; \<newline>'' @
     ''      color: #1e293b; \<newline>'' @
     ''      margin: 0; \<newline>'' @
     ''      padding: 0;\<newline>'' @
     ''      height: 100%;\<newline>'' @
     ''      width: 100%;\<newline>'' @
     ''      font-family: system-ui, -apple-system, sans-serif; \<newline>'' @
     ''    }\<newline>'' @
     ''    #root { \<newline>'' @
     ''      min-height: 100%; \<newline>'' @
     ''      display: flex;\<newline>'' @
     ''      flex-direction: column;\<newline>'' @
     ''    }\<newline>'' @
     ''  </style>\<newline>'' @
     ''</head>\<newline>'' @
     ''<body>\<newline>'' @
     ''  <div id="root"></div>\<newline>'' @
     ''</body>\<newline>'' @
     ''</html>''\<close>

text \<open>The step \<^verbatim>\<open>Inject CSS\<close>.\<close>

definition injectCss :: "string \<Rightarrow> string \<Rightarrow> string" where
  "injectCss css html =
     (if css \<noteq> [] then
        (if includesStr html ''</head>''
         then replaceStr html ''</head>'' (''<style>'' @ css @ ''</style></head>'')
         else replaceStr html ''<body>'' (''<head><style>'' @ css @ ''</style></head><body>''))
      else html)"

subsection \<open>The React assembly\<close>

text \<open>The value of \<^verbatim>\<open>JSON.stringify(importMap)\<close>.\<close>

definition importMapJson :: string where
  \<open>importMapJson =
     ''{"imports":{'' @
     ''"react":"https://esm.sh/react@18.2.0",'' @
     ''"react-dom":"https://esm.sh/react-dom@18.2.0",'' @
     ''"react-dom/client":"https://esm.sh/react-dom@18.2.0/client",'' @
     ''"clsx":"https://esm.sh/clsx",'' @
     ''"tailwind-merge":"https://esm.sh/tailwind-merge",'' @
     ''"date-fns":"https://esm.sh/date-fns",'' @
     ''"lodash":"https://esm.sh/lodash",'' @
     ''"axios":"https://esm.sh/axios",'' @
     ''"uuid":"https://esm.sh/uuid",'' @
     ''"framer-motion":"https://esm.sh/framer-motion@10.16.4",'' @
     ''"lucide-react":"https://esm.sh/lucide-react@0.263.1",'' @
     ''"recharts":"https://esm.sh/recharts@2.10.3",'' @
     ''"react-icons":"https://esm.sh/react-icons@4.10.1",'' @
     ''"react-icons/fa":"https://esm.sh/react-icons@4.10.1/fa",'' @
     ''"react-icons/md":"https://esm.sh/react-icons@4.10.1/md",'' @
     ''"react-icons/fi":"https://esm.sh/react-icons@4.10.1/fi",'' @
     ''"react-icons/bi":"https://esm.sh/react-icons@4.10.1/bi",'' @
     ''"react-icons/ai":"https://esm.sh/react-icons@4.10.1/ai",'' @
     ''"react-icons/bs":"https://esm.sh/react-icons@4.10.1/bs",'' @
     ''"react-slick":"https://esm.sh/react-slick@0.29.0",'' @
     ''"slick-carousel":"https://esm.sh/slick-carousel@1.8.1",'' @
     ''"swiper":"https://esm.sh/swiper@10.0.0",'' @
     ''"swiper/react":"https://esm.sh/swiper@10.0.0/react",'' @
     ''"swiper/css":"https://esm.sh/swiper@10.0.0/css",'' @
     ''"react-markdown":"https://esm.sh/react-markdown@9.0.0",'' @
     ''"three":"https://esm.sh/three@0.154.0",'' @
     ''"@react-three/fiber":"https://esm.sh/@react-three/fiber@8.13.0",'' @
     ''"@react-three/drei":"https://esm.sh/@react-three/drei@9.77.0"}}''\<close>

definition babelScript :: string where
  \<open>babelScript =
     ''<script src="https://unpkg.com/@babel/standalone/babel.min.js"></script>''\<close>

definition importMapScriptA :: string where
  \<open>importMapScriptA =
     ''<script type="importmap">''\<close>

definition importMapScriptB :: string where
  \<open>importMapScriptB =
     ''</script>''\<close>

definition tailwindTag :: string where
  \<open>tailwindTag =
     ''<script src="https://cdn.tailwindcss.com"></script>''\<close>

text \<open>The two link elements appended to \<^verbatim>\<open>externalCss\<close>.\<close>

definition slickCss :: string where
  \<open>slickCss =
     ''<link rel="stylesheet" type="text/css" charset="UTF-8" href="https://cdnjs.cloudflare.com/ajax/libs/slick-carousel/1.6.0/slick.min.css" /> '' @ [CHR 0x5C] @ ''n<link rel="stylesheet" type="text/css" href="https://cdnjs.cloudflare.com/ajax/libs/slick-carousel/1.6.0/slick-theme.min.css" /> '' @ [CHR 0x5C] @ ''n''\<close>

definition processShim :: string where
  \<open>processShim =
     ''\<newline>'' @
     ''      window.process = { \<newline>'' @
     ''        env: { NODE_ENV: 'development' } \<newline>'' @
     ''      };\<newline>'' @
     ''    ''\<close>

text \<open>The synthesized mount call.\<close>

definition mountCall :: string where
  \<open>mountCall =
     ''\<newline>'' @
     ''         if (typeof App !== 'undefined') {\<newline>'' @
     ''           const root = ReactDOM.createRoot(document.getElementById('root'));\<newline>'' @
     ''           root.render(React.createElement(App));\<newline>'' @
     ''         }\<newline>'' @
     ''       ''\<close>

text \<open>The template of \<^verbatim>\<open>appScript\<close>, cut at its four interpolations.\<close>

definition appScriptA :: string where
  \<open>appScriptA =
     ''<script type="text/babel" data-type="module">\<newline>'' @
     ''      ''\<close>

definition appScriptB :: string where
  \<open>appScriptB =
     ''\<newline>'' @
     ''      ''\<close>

definition appScriptC :: string where
  \<open>appScriptC =
     ''\<newline>'' @
     ''      \<newline>'' @
     ''      // Error boundary wrapper for safety\<newline>'' @
     ''      try {\<newline>'' @
     ''        ''\<close>

definition appScriptD :: string where
  \<open>appScriptD =
     ''\<newline>'' @
     ''        ''\<close>

definition appScriptE :: string where
  \<open>appScriptE =
     ''\<newline>'' @
     ''      } catch (err) {\<newline>'' @
     ''        console.error("Runtime Script Error:", err);\<newline>'' @
     ''        const root = document.getElementById('root');\<newline>'' @
     ''        if (root) {\<newline>'' @
     ''          root.innerHTML = '<div style="color:red; padding:20px;"><h3>Script Error</h3><pre>' + err.message + '</pre></div>';\<newline>'' @
     ''        }\<newline>'' @
     ''      }\<newline>'' @
     ''    </script>''\<close>

text \<open>
  \<^verbatim>\<open>getScore\<close>, with
  \<^verbatim>\<open>/index\.(js|jsx|ts|tsx)$/i\<close>, \<^verbatim>\<open>/main\.(js|jsx|ts|tsx)$/i\<close>,
  \<^verbatim>\<open>/App\.(js|jsx|ts|tsx)$/i\<close> and \<^verbatim>\<open>/components?\//i\<close>.
\<close>

definition scriptExtension :: regex where
  "scriptExtension = Group 1 (alts [Str ''js'', Str ''jsx'', Str ''ts'', Str ''tsx''])"

definition indexNameRegex :: regex where
  "indexNameRegex = cat [Str ''index'', Chr CHR ''.'', scriptExtension, Eol]"

definition mainNameRegex :: regex where
  "mainNameRegex = cat [Str ''main'', Chr CHR ''.'', scriptExtension, Eol]"

definition appNameRegex :: regex where
  "appNameRegex = cat [Str ''App'', Chr CHR ''.'', scriptExtension, Eol]"

definition componentsRegex :: regex where
  "componentsRegex = cat [Str ''component'', Opt (Chr CHR ''s''), Chr CHR ''/'']"

definition getScore :: "string \<Rightarrow> nat" where
  "getScore n =
     (if testRx True indexNameRegex n then 100
      else if testRx True mainNameRegex n then 100
      else if testRx True appNameRegex n then 50
      else if testRx True componentsRegex n then 10
      else 0)"

text \<open>
  \<^verbatim>\<open>jsFiles.sort((a, b) => getScore(a.name) - getScore(b.name))\<close>: ascending by score;
  \<^verbatim>\<open>Array.prototype.sort\<close> is stable, and so is \<open>sort_key\<close>.
\<close>

definition sortedJs :: "GeneratedFile list \<Rightarrow> GeneratedFile list" where
  "sortedJs files = sort_key (\<lambda>f. getScore (name f)) (jsFiles files)"

text \<open>
  \<^verbatim>\<open>/import\s+(?:[\s\S]*?)\s+from\s+['"](.*?)['"];?/g\<close> and
  \<^verbatim>\<open>/import\s+['"](.*?)['"];?/g\<close>
\<close>

abbreviation quoteMark :: regex where
  "quoteMark \<equiv> Cls False [CChr sq, CChr dq]"

definition importRegex :: regex where
  "importRegex =
     cat [Str ''import'', Plus ws, Star False anyChar, Plus ws, Str ''from'', Plus ws, quoteMark,
          Group 1 (Star False Dot), quoteMark, Opt (Chr CHR '';'')]"

definition sideEffectImportRegex :: regex where
  "sideEffectImportRegex =
     cat [Str ''import'', Plus ws, quoteMark, Group 1 (Star False Dot), quoteMark, Opt (Chr CHR '';'')]"

text \<open>\<^verbatim>\<open>/export\s+default\s+/g\<close> and \<^verbatim>\<open>/export\s+/g\<close>\<close>

definition exportDefaultRegex :: regex where
  "exportDefaultRegex = cat [Str ''export'', Plus ws, Str ''default'', Plus ws]"

definition exportRegex :: regex where
  "exportRegex = cat [Str ''export'', Plus ws]"

definition isLocalPath :: "string \<Rightarrow> bool" where
  "isLocalPath path \<longleftrightarrow> startsWith path ''.'' \<or> startsWith path ''/''"

text \<open>
  The function mapped over \<^verbatim>\<open>sortedJs\<close>, for one file.  Both replacement functions
  return the empty string for every match; as a side effect they add the text of a match
  whose path is not local to the set \<^verbatim>\<open>externalImports\<close>.  The second replacement
  runs on the result of the first.
\<close>

definition withoutImports :: "string \<Rightarrow> string" where
  "withoutImports c = replaceAll False importRegex (\<lambda>m. []) c"

definition externalOf :: "regex \<Rightarrow> string \<Rightarrow> string list" where
  "externalOf r c =
     map matchText (filter (\<lambda>m. \<not> isLocalPath (group (snd m) 1)) (matchAll False r c))"

definition importsAdded :: "GeneratedFile \<Rightarrow> string list" where
  "importsAdded f =
     externalOf importRegex (content f) @
     externalOf sideEffectImportRegex (withoutImports (content f))"

definition hasMountCall :: "string \<Rightarrow> bool" where
  "hasMountCall c \<longleftrightarrow> includesStr c ''createRoot'' \<or> includesStr c ''ReactDOM.render''"

definition processedJsPart :: "GeneratedFile \<Rightarrow> string" where
  "processedJsPart f =
     (let c = content f;
          c = withoutImports c;
          c = replaceAll False sideEffectImportRegex (\<lambda>m. []) c;
          c = replaceAll False exportDefaultRegex (\<lambda>m. []) c;
          c = replaceAll False exportRegex (\<lambda>m. []) c
      in ''// --- '' @ name f @ '' ---'' @ [nl] @ c)"

definition processedJsParts :: "GeneratedFile list \<Rightarrow> string list" where
  "processedJsParts files = map processedJsPart (sortedJs files)"

text \<open>
  \<^verbatim>\<open>Set.prototype.add\<close> keeps the first insertion of a value, and \<^verbatim>\<open>Array.from\<close> lists
  the values in insertion order.
\<close>

definition setAdd :: "string list \<Rightarrow> string \<Rightarrow> string list" where
  "setAdd s x = (if x \<in> set s then s else s @ [x])"

definition externalImports :: "GeneratedFile list \<Rightarrow> string list" where
  "externalImports files = foldl setAdd [] (concat (map importsAdded (sortedJs files)))"

definition entryPointExists :: "GeneratedFile list \<Rightarrow> bool" where
  "entryPointExists files \<longleftrightarrow> foldl (\<lambda>found f. if hasMountCall (content f) then True else found) False (sortedJs files)"

definition combinedImports :: "GeneratedFile list \<Rightarrow> string" where
  "combinedImports files = join (externalImports files) [nl]"

definition declaresApp :: "string \<Rightarrow> bool" where
  "declaresApp p \<longleftrightarrow>
     includesStr p ''function App'' \<or> includesStr p ''class App'' \<or> includesStr p ''const App''"

definition mountScript :: "GeneratedFile list \<Rightarrow> string" where
  "mountScript files =
     (if \<not> entryPointExists files \<and> list_ex declaresApp (processedJsParts files)
      then mountCall else [])"

definition appScript :: "GeneratedFile list \<Rightarrow> string" where
  "appScript files =
     appScriptA @ combinedImports files @ appScriptB @ processShim @ appScriptC @
     join (processedJsParts files) [nl, nl] @ appScriptD @ mountScript files @ appScriptE"

definition tailwindScript :: "string \<Rightarrow> string" where
  "tailwindScript html = (if \<not> includesStr html ''cdn.tailwindcss.com'' then tailwindTag else [])"

definition externalCss :: "GeneratedFile list \<Rightarrow> string" where
  "externalCss files =
     (if list_ex (\<lambda>f. includesStr (content f) ''slick'') (jsFiles files) then slickCss else [])"

definition importMapScript :: string where
  "importMapScript = importMapScriptA @ importMapJson @ importMapScriptB"

definition reactAssembly :: "GeneratedFile list \<Rightarrow> string \<Rightarrow> string" where
  "reactAssembly files html0 =
     (let headScripts =
            consoleHook @ [nl] @ tailwindScript html0 @ [nl] @ importMapScript @ [nl] @ externalCss files;
          html =
            (if includesStr html0 ''</head>''
             then replaceStr html0 ''</head>'' (headScripts @ [nl] @ ''</head>'')
             else ''<head>'' @ headScripts @ ''</head>'' @ html0);
          bodyScripts = babelScript @ [nl] @ appScript files
      in if includesStr html ''</body>''
         then replaceStr html ''</body>'' (bodyScripts @ [nl] @ ''</body>'')
         else html @ bodyScripts)"

subsection \<open>The plain JavaScript assembly\<close>

definition vanillaAssembly :: "GeneratedFile list \<Rightarrow> string \<Rightarrow> string" where
  "vanillaAssembly files html0 =
     (let html =
            (if includesStr html0 ''<head>''
             then replaceStr html0 ''<head>'' (''<head>'' @ consoleHook)
             else consoleHook @ html0)
      in if length (jsFiles files) > 0 then
           (let scriptContent = join (map content (jsFiles files)) [nl]
            in if includesStr html ''</body>''
               then replaceStr html ''</body>'' (''<script>'' @ scriptContent @ ''</script></body>'')
               else html @ ''<script>'' @ scriptContent @ ''</script>'')
         else html)"

subsection \<open>\<^verbatim>\<open>assemblePreview\<close>\<close>

text \<open>
  The project kind of the data model is not a value of the program: it is the strategy
  by which \<^verbatim>\<open>assemblePreview\<close> produces its document.  The model of the function
  therefore returns, with the document, the kind of the branch that produced it: the
  simulation document (\<open>Native\<close>), the React assembly (\<open>Framework\<close>), the plain assembly
  over the Liquid conversion (\<open>Templating\<close>), and the plain assembly over any other base
  document (\<open>Plain\<close>).

  The steps are those of the source, in order: the native branch with its early return,
  the CSS assembly, the choice of the base document (\<^verbatim>\<open>preview.html\<close>, then another HTML
  file, then the Liquid conversion when the project is not a React project, then the
  document with the empty root), the injection of the CSS, and the React or the plain
  JavaScript assembly.  The document is \<open>None\<close> when the call does not return, which only
  the loops of \<open>simulateNativeLanguage\<close> could cause.
\<close>

datatype ProjectKind = Native | Templating | Framework | Plain

definition assembleTagged :: "GeneratedFile list \<Rightarrow> ProjectKind \<times> string option" where
  "assembleTagged files =
     (case (if isNative files then nativeFile files else None) of
        Some nf \<Rightarrow> (Native, map_option nativeDocument (simulateNativeLanguage nf))
      | None \<Rightarrow>
          (let css = cssAssembly files;
               (kind, css, html) =
                 (case previewHtmlFile files of
                    Some p \<Rightarrow> (Plain, css, content p)
                  | None \<Rightarrow>
                      (case htmlFile files of
                         Some h \<Rightarrow> (Plain, css, content h)
                       | None \<Rightarrow>
                           (case liquidFile files of
                              Some l \<Rightarrow>
                                if \<not> isReact files
                                then (Templating, css @ liquidCss (content l), liquidDocument (content l))
                                else (Plain, css, emptyRootShell)
                            | None \<Rightarrow> (Plain, css, emptyRootShell))));
               html = injectCss css html
           in if isReact files then (Framework, Some (reactAssembly files html))
              else (kind, Some (vanillaAssembly files html))))"

definition assemblePreview :: "GeneratedFile list \<Rightarrow> string option" where
  "assemblePreview files = snd (assembleTagged files)"

definition classify :: "GeneratedFile list \<Rightarrow> ProjectKind" where
  "classify files = fst (assembleTagged files)"

section \<open>Termination of the loops over matches\<close>

text \<open>
  A regular expression that starts with a literal character consumes at least one
  character in every match, so the \<^verbatim>\<open>exec\<close> loops over it end.
\<close>

lemma ms_literal_progress:
  assumes "e \<in> set (ms ic (Seq (Chr c) r) b)"
  shows "length (post e) < length (post b)"
proof -
  from assms obtain m where m: "m \<in> set (accept (\<lambda>x. canon ic x = canon ic c) b)"
    and e: "e \<in> set (ms ic r m)"
    by auto
  from m have "length (post m) < length (post b)"
    by (auto simp: accept_def step_def split: list.splits if_splits)
  moreover from ms_adv[OF e] have "length (post e) \<le> length (post m)"
    by (auto simp: adv_def)
  ultimately show ?thesis by simp
qed

lemma ms_literal_first_progress:
  assumes "e \<in> set (ms ic (Seq (Seq (Chr c) r1) r2) b)"
  shows "length (post e) < length (post b)"
proof -
  from assms obtain m where m: "m \<in> set (ms ic (Seq (Chr c) r1) b)" and e: "e \<in> set (ms ic r2 m)"
    by auto
  from ms_adv[OF e] have "length (post e) \<le> length (post m)"
    by (auto simp: adv_def)
  with ms_literal_progress[OF m] show ?thesis by simp
qed

lemma execAll_returns:
  assumes prog: "\<And>b e. e \<in> set (ms ic r b) \<Longrightarrow> length (post e) < length (post b)"
  shows "\<exists>found. execAll ic r p s = Some found"
proof (induction "length s" arbitrary: p s rule: less_induct)
  case less
  show ?case
  proof (cases "search ic r p s")
    case None
    then show ?thesis by (subst execAll.simps) simp
  next
    case (Some be)
    obtain b e where be: "be = (b, e)" by (cases be)
    from search_adv[OF Some[unfolded be]] have mem: "e \<in> set (ms ic r b)" by simp
    from search_length(2)[OF Some[unfolded be]] prog[OF mem]
    have lt: "length (post e) < length s" by simp
    from less[OF lt] obtain found where "execAll ic r (pre e) (post e) = Some found" by blast
    with Some be lt show ?thesis by (subst execAll.simps) simp
  qed
qed

lemma printRegex_returns: "\<exists>found. execAll False printRegex p s = Some found"
  by (rule execAll_returns) (simp only: printRegex_def cat_def Str_def foldr.simps o_apply, erule ms_literal_first_progress)

lemma javaPrintRegex_returns: "\<exists>found. execAll False javaPrintRegex p s = Some found"
  by (rule execAll_returns) (simp only: javaPrintRegex_def cat_def Str_def foldr.simps o_apply, erule ms_literal_first_progress)

lemma goPrintRegex_returns: "\<exists>found. execAll False goPrintRegex p s = Some found"
  by (rule execAll_returns) (simp only: goPrintRegex_def cat_def Str_def foldr.simps o_apply, erule ms_literal_first_progress)

lemma simulateNativeLanguage_returns: "\<exists>script. simulateNativeLanguage f = Some script"
  using printRegex_returns[of "[]" "content f"] javaPrintRegex_returns[of "[]" "content f"]
    goPrintRegex_returns[of "[]" "content f"]
  by (auto simp: simulateNativeLanguage_def)

lemma assemblePreview_returns: "\<exists>doc. assemblePreview files = Some doc"
  using simulateNativeLanguage_returns
  by (auto simp: assemblePreview_def assembleTagged_def Let_def split: option.splits prod.splits)

lemma delimiterRegex_returns: "\<exists>found. execAll False delimiterRegex p s = Some found"
  by (rule execAll_returns) (simp only: delimiterRegex_def cat_def Str_def foldr.simps o_apply, erule ms_literal_first_progress)

lemma ms_group_literal_first_progress:
  assumes "e \<in> set (ms ic (Seq (Group n (Seq (Chr c) r1)) r2) b)"
  shows "length (post e) < length (post b)"
proof -
  from assms obtain m where m: "m \<in> set (ms ic (Group n (Seq (Chr c) r1)) b)"
    and e: "e \<in> set (ms ic r2 m)"
    by auto
  from m obtain m' where m': "m' \<in> set (ms ic (Seq (Chr c) r1) b)" and "post m = post m'"
    by (auto simp del: ms.simps(4) simp add: image_iff)
  with ms_literal_progress[OF m'] have "length (post m) < length (post b)" by simp
  moreover from ms_adv[OF e] have "length (post e) \<le> length (post m)"
    by (auto simp: adv_def)
  ultimately show ?thesis by simp
qed

lemma codeBlockRegex_returns: "\<exists>found. execAll False codeBlockRegex p s = Some found"
  by (rule execAll_returns) (simp only: codeBlockRegex_def cat_def Str_def foldr.simps o_apply, erule ms_group_literal_first_progress)

lemma parseGeneratedContent_returns: "\<exists>files. parseGeneratedContent text = Some files"
  using delimiterRegex_returns[of "[]" "text"] codeBlockRegex_returns[of "[]" "text"]
  by (auto simp: parseGeneratedContent_def Let_def)

section \<open>Properties of the extractor\<close>

text \<open>
  C8: extracting the text
  \<^verbatim>\<open>***FILE_START: a.txt***\nhello\n***FILE_END***\<close>
  ends and gives exactly one artifact: name \<^verbatim>\<open>a.txt\<close>, language \<^verbatim>\<open>txt\<close>, content
  \<^verbatim>\<open>hello\<close>.
\<close>

theorem extract_reserialized_example:
  "parseGeneratedContent ''***FILE_START: a.txt***\<newline>hello\<newline>***FILE_END***'' =
     Some [\<lparr>name = ''a.txt'', language = ''txt'', content = ''hello''\<rparr>]"
  by code_simp

subsection \<open>Extraction of delimited blocks\<close>

text \<open>
  C1 fails on the language of a file name without a dot: \<^verbatim>\<open>split('.').pop()\<close> is then
  the whole name, which is not empty, so the default \<^verbatim>\<open>'text'\<close> is not taken.  The block
  for \<^verbatim>\<open>Makefile\<close> gets the language \<^verbatim>\<open>makefile\<close>.
\<close>

theorem extension_default_missed:
  "parseGeneratedContent ''***FILE_START: Makefile***\<newline>all:\<newline>***FILE_END***'' =
     Some [\<lparr>name = ''Makefile'', language = ''makefile'', content = ''all:''\<rparr>]"
  by code_simp

subsection \<open>Stripping the blocks\<close>

text \<open>
  C5, as stated, fails: a text whose block has no closing marker, as when the output is
  cut off, is returned whole, with the opening marker in it.
\<close>

theorem strip_counterexample:
  "cleanResponseText ''Here it is: ***FILE_START: a.txt***\<newline>hello'' =
     ''Here it is: ***FILE_START: a.txt***\<newline>hello''"
  by code_simp

section \<open>Properties of the assembler\<close>

subsection \<open>The assembler returns, and the document for no files\<close>

lemma substitute_plain: "CHR ''$'' \<notin> set r \<Longrightarrow> substitute m b a r = r"
  by (induction m b a r rule: substitute.induct) auto

lemma consoleHook_plain: "CHR ''$'' \<notin> set consoleHook"
  by (simp add: consoleHook_def)

lemma emptyRootShell_head:
  \<open>take 40 emptyRootShell = ''\<newline><!DOCTYPE html>\<newline><html lang="en">\<newline><head>''\<close>
  by code_simp

lemma emptyRootShell_split:
  \<open>emptyRootShell =
     ''\<newline><!DOCTYPE html>\<newline><html lang="en">\<newline><head>'' @ drop 40 emptyRootShell\<close>
  using append_take_drop_id[of 40 emptyRootShell] by (simp only: emptyRootShell_head)

lemma empty_flags:
  "isNative [] = False" "isReact [] = False" "cssAssembly [] = []" "previewHtmlFile [] = None"
  "htmlFile [] = None" "liquidFile [] = None" "jsFiles [] = []"
  by (simp_all add: isNative_def isReact_def cssAssembly_def cssFiles_def previewHtmlFile_def
      htmlFile_def liquidFile_def jsFiles_def nativeFile_def)

lemma assemblePreview_Nil:
  \<open>assemblePreview [] =
     Some (''\<newline><!DOCTYPE html>\<newline><html lang="en">\<newline><head>'' @ consoleHook @
           drop 40 emptyRootShell)\<close>
proof -
  define rest where "rest = drop 40 emptyRootShell"
  have shell:
    \<open>emptyRootShell = ''\<newline><!DOCTYPE html>\<newline><html lang="en">\<newline><head>'' @ rest\<close>
    unfolding rest_def by (rule emptyRootShell_split)
  have "vanillaAssembly [] emptyRootShell =
      ''\<newline><!DOCTYPE html>\<newline><html lang=\"en\">\<newline>'' @ (''<head>'' @ consoleHook) @ rest"
    unfolding shell vanillaAssembly_def replaceStr_def
    by (simp add: empty_flags substitute_plain consoleHook_plain del: substitute.simps)
  then show ?thesis
    unfolding rest_def[symmetric]
    by (simp add: assemblePreview_def assembleTagged_def empty_flags injectCss_def)
qed

text \<open>
  C3: \<^verbatim>\<open>assemblePreview\<close> returns a document for every list of files: no operation of
  the function can throw, and the only loops that could fail to end, those of the native
  simulation, end.  For the empty list the document is the shell with the empty root
  element, with the console hook placed after its \<^verbatim>\<open><head>\<close> tag, which are the first
  40 characters of the shell, and with no style sheet and no script added.
\<close>

theorem assemblePreview_total_and_empty:
  \<open>(\<exists>doc. assemblePreview files = Some doc) \<and>
   assemblePreview [] =
     Some (''\<newline><!DOCTYPE html>\<newline><html lang="en">\<newline><head>'' @ consoleHook @
           drop 40 emptyRootShell) \<and>
   take 40 emptyRootShell = ''\<newline><!DOCTYPE html>\<newline><html lang="en">\<newline><head>''\<close>
  using assemblePreview_returns[of files] assemblePreview_Nil emptyRootShell_head by simp

subsection \<open>Classification\<close>

lemma classify_branches:
  "classify files =
     (if previewHtmlFile files = None \<and> htmlFile files = None \<and> jsFiles files = [] \<and>
         nativeFile files \<noteq> None
      then Native
      else if list_ex (\<lambda>f. hasReactSignature (content f)) (jsFiles files) then Framework
      else if liquidFile files \<noteq> None \<and> previewHtmlFile files = None \<and> htmlFile files = None
      then Templating
      else Plain)"
  by (auto simp: classify_def assembleTagged_def isNative_def isReact_def Let_def
      split: option.splits)

lemma classify_Framework_iff:
  "classify files = Framework \<longleftrightarrow> list_ex (\<lambda>f. hasReactSignature (content f)) (jsFiles files)"
  by (auto simp: classify_branches list_ex_iff)

text \<open>
  The precedence as the specification words it: native when there is no markup file, no
  script, style or markup family file and no preview document, but a file of a native
  language; else framework when a script has a React import signature; else templating
  when a Liquid file exists; else plain.
\<close>

definition specClassify :: "GeneratedFile list \<Rightarrow> ProjectKind" where
  "specClassify files =
     (if htmlFile files = None \<and> jsFiles files = [] \<and> cssFiles files = [] \<and>
         previewHtmlFile files = None \<and> nativeFile files \<noteq> None
      then Native
      else if list_ex (\<lambda>f. hasReactSignature (content f)) (jsFiles files) then Framework
      else if liquidFile files \<noteq> None then Templating
      else Plain)"

definition markupAndTemplate :: "GeneratedFile list" where
  "markupAndTemplate =
     [\<lparr>name = ''index.html'', language = ''html'', content = ''<p>hi</p>''\<rparr>,
      \<lparr>name = ''section.liquid'', language = ''liquid'', content = ''{{ x }}''\<rparr>]"

lemma markupAndTemplate_flags:
  "previewHtmlFile markupAndTemplate = None"
  "htmlFile markupAndTemplate \<noteq> None"
  "jsFiles markupAndTemplate = []"
  "cssFiles markupAndTemplate = []"
  "liquidFile markupAndTemplate \<noteq> None"
  by code_simp+

text \<open>
  C2, as stated, fails: for an HTML file together with a Liquid file the stated
  precedence gives templating, but \<^verbatim>\<open>assemblePreview\<close> takes the HTML file as the base
  document and never converts the Liquid file.
\<close>

theorem classify_counterexample:
  "classify markupAndTemplate = Plain \<and> specClassify markupAndTemplate = Templating"
  by (simp add: classify_branches specClassify_def markupAndTemplate_flags)

text \<open>Style sheets are not consulted either: a C++ file with a style sheet is native.\<close>

definition nativeAndStyle :: "GeneratedFile list" where
  "nativeAndStyle =
     [\<lparr>name = ''main.cpp'', language = ''cpp'', content = ''int main() {}''\<rparr>,
      \<lparr>name = ''style.css'', language = ''css'', content = ''a {}''\<rparr>]"

lemma nativeAndStyle_flags:
  "previewHtmlFile nativeAndStyle = None"
  "htmlFile nativeAndStyle = None"
  "jsFiles nativeAndStyle = []"
  "cssFiles nativeAndStyle \<noteq> []"
  "nativeFile nativeAndStyle \<noteq> None"
  "liquidFile nativeAndStyle = None"
  by code_simp+

lemma classify_ignores_style:
  "classify nativeAndStyle = Native \<and> specClassify nativeAndStyle = Plain"
  by (simp add: classify_branches specClassify_def nativeAndStyle_flags)

text \<open>
  C2, amended: the kind is native if and only if there is no \<^verbatim>\<open>preview.html\<close>, no other
  HTML file and no script file (\<^verbatim>\<open>.js\<close>, \<^verbatim>\<open>.jsx\<close>, \<^verbatim>\<open>.ts\<close>, \<^verbatim>\<open>.tsx\<close>), but a file
  with a native-language extension; else framework if the content of a script file has
  a React import signature; else templating if a Liquid file exists and there is neither
  a \<^verbatim>\<open>preview.html\<close> nor another HTML file; else plain.
\<close>

theorem classify_precedence:
  "classify files =
     (if previewHtmlFile files = None \<and> htmlFile files = None \<and> jsFiles files = [] \<and>
         nativeFile files \<noteq> None
      then Native
      else if list_ex (\<lambda>f. hasReactSignature (content f)) (jsFiles files) then Framework
      else if liquidFile files \<noteq> None \<and> previewHtmlFile files = None \<and> htmlFile files = None
      then Templating
      else Plain)"
  by (rule classify_branches)

definition templateOnly :: "GeneratedFile list" where
  "templateOnly = [\<lparr>name = ''section.liquid'', language = ''liquid'', content = ''{{ x }}''\<rparr>]"

lemma templateOnly_flags:
  "previewHtmlFile templateOnly = None"
  "htmlFile templateOnly = None"
  "jsFiles templateOnly = []"
  "nativeFile templateOnly = None"
  "liquidFile templateOnly \<noteq> None"
  by code_simp+

theorem classify_precedence_witness: "classify templateOnly = Templating"
  using classify_precedence[of templateOnly] by (simp add: templateOnly_flags)

subsection \<open>The synthesized mount call\<close>

lemma foldl_flag: "foldl (\<lambda>found f. if P f then True else found) b xs = (b \<or> list_ex P xs)"
  by (induction xs arbitrary: b) auto

lemma entryPointExists_iff:
  "entryPointExists files \<longleftrightarrow> list_ex (\<lambda>f. hasMountCall (content f)) (jsFiles files)"
  by (simp add: entryPointExists_def foldl_flag sortedJs_def list_ex_iff)

lemma declares_iff:
  "list_ex declaresApp (processedJsParts files) \<longleftrightarrow>
   list_ex (\<lambda>f. declaresApp (processedJsPart f)) (jsFiles files)"
  by (simp add: processedJsParts_def sortedJs_def list_ex_iff)

lemma mountCall_targets:
  \<open>includesStr mountCall ''ReactDOM.createRoot(document.getElementById('root'))'' \<and>
   includesStr mountCall ''root.render(React.createElement(App))''\<close>
  by code_simp

text \<open>
  A top-level binding named \<^verbatim>\<open>App\<close>, as the specification words it: a line of the
  content starts with one of the declaration keywords of JavaScript and the name.
\<close>

definition specDeclaresApp :: "string \<Rightarrow> bool" where
  "specDeclaresApp c \<longleftrightarrow>
     list_ex (\<lambda>line. list_ex (\<lambda>kw. startsWith line (kw @ '' App''))
                       [''function'', ''class'', ''const'', ''let'', ''var''])
       (split c [nl])"

definition letApp :: "GeneratedFile list" where
  \<open>letApp =
     [\<lparr>name = ''App.jsx'', language = ''jsx'',
       content = ''import React from 'react';\<newline>let App = () => null;''\<rparr>]\<close>

lemma letApp_flags:
  "jsFiles letApp = letApp"
  "list_ex (\<lambda>f. hasReactSignature (content f)) letApp"
  "\<not> list_ex (\<lambda>f. hasMountCall (content f)) letApp"
  "list_ex (\<lambda>f. specDeclaresApp (content f)) letApp"
  "\<not> list_ex (\<lambda>f. declaresApp (processedJsPart f)) letApp"
  by code_simp+

text \<open>
  C4, as stated, fails: a React project whose only script declares \<^verbatim>\<open>App\<close> with
  \<^verbatim>\<open>let\<close> and has no mount call gets no synthesized mount call.
\<close>

theorem mount_counterexample:
  "classify letApp = Framework \<and>
   \<not> list_ex (\<lambda>f. hasMountCall (content f)) letApp \<and>
   list_ex (\<lambda>f. specDeclaresApp (content f)) letApp \<and>
   mountScript letApp = []"
  by (simp add: classify_Framework_iff mountScript_def declares_iff entryPointExists_iff
      letApp_flags)

text \<open>
  C4, amended: in a project of kind framework, when no script file contains the text
  \<^verbatim>\<open>createRoot\<close> or \<^verbatim>\<open>ReactDOM.render\<close> and the rewritten body of some script file
  contains \<^verbatim>\<open>function App\<close>, \<^verbatim>\<open>class App\<close> or \<^verbatim>\<open>const App\<close>, the linked script has the
  mount call once, after the rewritten bodies; the mount call renders \<^verbatim>\<open>App\<close> into the
  element with the id \<^verbatim>\<open>root\<close>.  When some script file contains \<^verbatim>\<open>createRoot\<close> or
  \<^verbatim>\<open>ReactDOM.render\<close>, nothing is synthesized.
\<close>

theorem mount_synthesis:
  assumes "classify files = Framework"
  shows
    \<open>(\<not> list_ex (\<lambda>f. hasMountCall (content f)) (jsFiles files) \<and>
      list_ex (\<lambda>f. declaresApp (processedJsPart f)) (jsFiles files) \<longrightarrow>
        mountScript files = mountCall \<and>
        appScript files =
          appScriptA @ combinedImports files @ appScriptB @ processShim @ appScriptC @
          join (processedJsParts files) [nl, nl] @ appScriptD @ mountCall @ appScriptE \<and>
        includesStr mountCall ''ReactDOM.createRoot(document.getElementById('root'))'' \<and>
        includesStr mountCall ''root.render(React.createElement(App))'') \<and>
     (list_ex (\<lambda>f. hasMountCall (content f)) (jsFiles files) \<longrightarrow>
        mountScript files = [] \<and>
        appScript files =
          appScriptA @ combinedImports files @ appScriptB @ processShim @ appScriptC @
          join (processedJsParts files) [nl, nl] @ appScriptD @ appScriptE)\<close>
  using mountCall_targets
  by (simp add: mountScript_def appScript_def entryPointExists_iff declares_iff)

definition constApp :: "GeneratedFile list" where
  \<open>constApp =
     [\<lparr>name = ''App.jsx'', language = ''jsx'',
       content = ''import React from 'react';\<newline>const App = () => null;''\<rparr>]\<close>

definition mountedApp :: "GeneratedFile list" where
  \<open>mountedApp =
     [\<lparr>name = ''main.jsx'', language = ''jsx'',
       content = ''import React from 'react';\<newline>ReactDOM.render(1, document.body);''\<rparr>]\<close>

lemma constApp_flags:
  "jsFiles constApp = constApp"
  "list_ex (\<lambda>f. hasReactSignature (content f)) constApp"
  "\<not> list_ex (\<lambda>f. hasMountCall (content f)) constApp"
  "list_ex (\<lambda>f. declaresApp (processedJsPart f)) constApp"
  by code_simp+

lemma mountedApp_flags:
  "jsFiles mountedApp = mountedApp"
  "list_ex (\<lambda>f. hasReactSignature (content f)) mountedApp"
  "list_ex (\<lambda>f. hasMountCall (content f)) mountedApp"
  by code_simp+

theorem mount_synthesis_witness:
  "classify constApp = Framework \<and>
   \<not> list_ex (\<lambda>f. hasMountCall (content f)) (jsFiles constApp) \<and>
   list_ex (\<lambda>f. declaresApp (processedJsPart f)) (jsFiles constApp) \<and>
   mountScript constApp = mountCall \<and>
   classify mountedApp = Framework \<and>
   list_ex (\<lambda>f. hasMountCall (content f)) (jsFiles mountedApp) \<and>
   mountScript mountedApp = []"
proof -
  have c: "classify constApp = Framework" and m: "classify mountedApp = Framework"
    by (simp_all add: classify_Framework_iff constApp_flags mountedApp_flags)
  from mount_synthesis[OF c] mount_synthesis[OF m] c m show ?thesis
    by (simp add: constApp_flags mountedApp_flags)
qed

subsection \<open>Import statements in the linked script\<close>

definition styleThenReact :: "GeneratedFile list" where
  \<open>styleThenReact =
     [\<lparr>name = ''index.jsx'', language = ''jsx'',
       content = ''import './index.css';\<newline>import React from 'react';''\<rparr>]\<close>

text \<open>
  C7 fails when a side-effect import of a local path stands before an import with
  \<^verbatim>\<open>from\<close>: the first regular expression matches from the first \<^verbatim>\<open>import\<close> up to the
  path after \<^verbatim>\<open>from\<close>, so the two statements are one match with the external path
  \<^verbatim>\<open>react\<close>, and the local import is collected with it and put at the top of the linked
  script.
\<close>

theorem local_import_collected:
  \<open>classify styleThenReact = Framework \<and>
   combinedImports styleThenReact = ''import './index.css';\<newline>import React from 'react';'' \<and>
   appScript styleThenReact =
     appScriptA @ ''import './index.css';\<newline>import React from 'react';'' @ appScriptB @
     processShim @ appScriptC @ ''// --- index.jsx ---\<newline>'' @ appScriptD @ appScriptE\<close>
proof -
  have "jsFiles styleThenReact = styleThenReact"
    "list_ex (\<lambda>f. hasReactSignature (content f)) styleThenReact"
    by code_simp+
  then have k: "classify styleThenReact = Framework"
    by (simp add: classify_Framework_iff)
  have i: \<open>combinedImports styleThenReact = ''import './index.css';\<newline>import React from 'react';''\<close>
    by code_simp
  have p: \<open>processedJsParts styleThenReact = [''// --- index.jsx ---\<newline>'']\<close>
    by code_simp
  have m: "mountScript styleThenReact = []"
    by code_simp
  show ?thesis
    by (simp add: k i appScript_def p m)
qed

subsection \<open>The simulation of an output statement\<close>

definition loopProgram :: GeneratedFile where
  \<open>loopProgram =
     \<lparr>name = ''main.cpp'', language = ''cpp'',
      content = ''int main() {\<newline>  for (int i = 0; i < 3; i++) cout << "Hi" << endl;\<newline>}''\<rparr>\<close>

text \<open>
  C6, as stated, fails: step 6 rewrites a line only when the line starts with
  \<^verbatim>\<open>cout\<close>.  In the body of a one-line loop the statement is kept as it is, and the
  script has no console write of \<^verbatim>\<open>"Hi"\<close>.
\<close>

theorem cout_counterexample:
  \<open>includesStr (content loopProgram) ''cout << "Hi" << endl;'' \<and>
   simulateNativeLanguage loopProgram =
     Some (cppScriptHead @ ''\<newline>  for (let i = 0; i < 3; i++) cout << "Hi" << endl;\<newline>'' @
           cppScriptTail) \<and>
   \<not> includesStr (cppScriptHead @ ''\<newline>  for (let i = 0; i < 3; i++) cout << "Hi" << endl;\<newline>'' @
           cppScriptTail) ''console.log("Hi"''\<close>
  by code_simp

lemma coutStatement_Hi:
  \<open>coutStatement ''cout << "Hi" << endl;'' = ''console.log("Hi", "'' @ [bs] @ ''n");''\<close>
  by code_simp

text \<open>
  C6, amended: for a C-family file, every line of the text after steps 1 to 5 that is the
  statement \<^verbatim>\<open>cout << "Hi" << endl;\<close> with nothing but white space around it becomes the
  line \<^verbatim>\<open>console.log("Hi", "\n");\<close> of the script.
\<close>

theorem cout_line_transpiled:
  assumes "testRx True cFamilyRegex (name file)"
    and "line \<in> set (split (cppBody (content file)) [nl])"
    and \<open>trim line = ''cout << "Hi" << endl;''\<close>
  shows \<open>\<exists>before after.
           simulateNativeLanguage file =
             Some (cppScriptHead @
                   join (before @ [''console.log("Hi", "'' @ [bs] @ ''n");''] @ after) [nl] @
                   cppScriptTail)\<close>
proof -
  from assms(2) obtain xs ys where sp: "split (cppBody (content file)) [nl] = xs @ line # ys"
    by (auto simp: in_set_conv_decomp)
  have "coutLine line = ''console.log(\"Hi\", \"'' @ [bs] @ ''n\");''"
    unfolding coutLine_def assms(3) coutStatement_Hi by (simp add: startsWith_def)
  then have "map coutLine (split (cppBody (content file)) [nl]) =
      map coutLine xs @ [''console.log(\"Hi\", \"'' @ [bs] @ ''n\");''] @ map coutLine ys"
    by (simp add: sp)
  then show ?thesis
    using assms(1) by (auto simp: simulateNativeLanguage_def transpileCppToJs_def Let_def)
qed

definition helloProgram :: GeneratedFile where
  \<open>helloProgram =
     \<lparr>name = ''main.cpp'', language = ''cpp'',
      content = ''#include <iostream>\<newline>using namespace std;\<newline>int main() {\<newline>    cout << "Hi" << endl;\<newline>    return 0;\<newline>}''\<rparr>\<close>

theorem cout_line_transpiled_witness:
  \<open>testRx True cFamilyRegex (name helloProgram) \<and>
   ''    cout << "Hi" << endl;'' \<in> set (split (cppBody (content helloProgram)) [nl]) \<and>
   trim ''    cout << "Hi" << endl;'' = ''cout << "Hi" << endl;'' \<and>
   (\<exists>before after.
           simulateNativeLanguage helloProgram =
             Some (cppScriptHead @
                   join (before @ [''console.log("Hi", "'' @ [bs] @ ''n");''] @ after) [nl] @
                   cppScriptTail))\<close>
proof -
  have a: "testRx True cFamilyRegex (name helloProgram)" by code_simp
  have b: \<open>''    cout << "Hi" << endl;'' \<in> set (split (cppBody (content helloProgram)) [nl])\<close>
    by code_simp
  have c: \<open>trim ''    cout << "Hi" << endl;'' = ''cout << "Hi" << endl;''\<close> by code_simp
  from cout_line_transpiled[OF a b c] a b c show ?thesis by blast
qed

end
